theory Spec2Isabelle
  imports Main "HOL-Library.Word"
begin

unbundle bit_operations_syntax

section \<open>Data model of vtkDICOMCharacterSet\<close>

text \<open>
  Text buffers (\<^verbatim>\<open>const char *\<close> with a length, \<^verbatim>\<open>std::string\<close>) are lists of bytes.
  Values that the source computes in \<^verbatim>\<open>unsigned short\<close>, \<^verbatim>\<open>unsigned int\<close> or
  \<^verbatim>\<open>size_t\<close> from bytes are natural numbers read off the bytes with \<open>unat\<close>; the
  decoders and encoders guard every subtraction by a range test and never leave the
  range of their C type, so no wrap-around is written out for them.  Where the source
  narrows a value to \<^verbatim>\<open>char\<close> or \<^verbatim>\<open>unsigned char\<close> the model narrows with
  \<open>of_nat\<close> into an 8-bit word.  The compressed tables compute in 16-bit words, and the
  ISO 2022 state word is a 32-bit word, as in the source.
\<close>

type_synonym byte = "8 word"
type_synonym bytes = "byte list"

subsection \<open>Encoding keys\<close>

text \<open>
  Modelled from the spec: the enumerators of \<^verbatim>\<open>vtkDICOMCharacterSet::EnumType\<close> and the
  constants \<^verbatim>\<open>ISO_2022\<close>, \<^verbatim>\<open>ISO_2022_BASE\<close>, \<^verbatim>\<open>ISO_2022_JP_BASE\<close>, \<^verbatim>\<open>ISO_2022_MAX\<close> are
  declared in vtkDICOMCharacterSet.h, which is not among the sources.  The specification
  (section 3) describes the key as a small integer, one out of about thirty, with a
  distinguished bit \<^verbatim>\<open>ISO_2022\<close> that is OR-combined with certain keys, and with the three
  Japanese keys OR-combinable with each other (the JP base).  The values below follow
  that layout and the way the source uses them: \<^verbatim>\<open>ISO_2022_IR_149 & ISO_2022_BASE\<close> and
  \<^verbatim>\<open>ISO_2022_IR_58 & ISO_2022_BASE\<close> are the keys of EUC-KR and GB2312, the JP base is
  the union of the low bits of ISO IR 13, ISO 2022 IR 87 and ISO 2022 IR 159, and
  \<^verbatim>\<open>Unknown\<close> is 255 (the value \<^verbatim>\<open>CharacterSetFromEscapeCode\<close> returns for no match).
\<close>

definition ISO_IR_6 :: byte where "ISO_IR_6 = 0"
definition ISO_IR_13 :: byte where "ISO_IR_13 = 1"
definition ISO_IR_100 :: byte where "ISO_IR_100 = 8"
definition ISO_IR_101 :: byte where "ISO_IR_101 = 9"
definition ISO_IR_109 :: byte where "ISO_IR_109 = 10"
definition ISO_IR_110 :: byte where "ISO_IR_110 = 11"
definition ISO_IR_144 :: byte where "ISO_IR_144 = 12"
definition ISO_IR_127 :: byte where "ISO_IR_127 = 13"
definition ISO_IR_126 :: byte where "ISO_IR_126 = 14"
definition ISO_IR_138 :: byte where "ISO_IR_138 = 15"
definition ISO_IR_148 :: byte where "ISO_IR_148 = 16"
definition ISO_IR_166 :: byte where "ISO_IR_166 = 17"
definition X_LATIN6 :: byte where "X_LATIN6 = 18"
definition X_LATIN7 :: byte where "X_LATIN7 = 19"
definition X_LATIN8 :: byte where "X_LATIN8 = 20"
definition X_LATIN9 :: byte where "X_LATIN9 = 21"
definition X_LATIN10 :: byte where "X_LATIN10 = 22"
definition X_EUCKR :: byte where "X_EUCKR = 24"
definition X_GB2312 :: byte where "X_GB2312 = 25"
definition ISO_2022_IR_6 :: byte where "ISO_2022_IR_6 = 32"
definition ISO_2022_IR_13 :: byte where "ISO_2022_IR_13 = 33"
definition ISO_2022_IR_87 :: byte where "ISO_2022_IR_87 = 34"
definition ISO_2022_IR_159 :: byte where "ISO_2022_IR_159 = 36"
definition ISO_2022_IR_149 :: byte where "ISO_2022_IR_149 = 56"
definition ISO_2022_IR_58 :: byte where "ISO_2022_IR_58 = 57"
definition ISO_IR_192 :: byte where "ISO_IR_192 = 64"
definition GB18030 :: byte where "GB18030 = 65"
definition GBK :: byte where "GBK = 66"
definition X_BIG5 :: byte where "X_BIG5 = 67"
definition X_EUCJP :: byte where "X_EUCJP = 69"
definition X_SJIS :: byte where "X_SJIS = 70"
definition X_CP874 :: byte where "X_CP874 = 76"
definition X_CP1250 :: byte where "X_CP1250 = 80"
definition X_CP1251 :: byte where "X_CP1251 = 81"
definition X_CP1252 :: byte where "X_CP1252 = 82"
definition X_CP1253 :: byte where "X_CP1253 = 83"
definition X_CP1254 :: byte where "X_CP1254 = 84"
definition X_CP1255 :: byte where "X_CP1255 = 85"
definition X_CP1256 :: byte where "X_CP1256 = 86"
definition X_CP1257 :: byte where "X_CP1257 = 87"
definition X_CP1258 :: byte where "X_CP1258 = 88"
definition X_KOI8 :: byte where "X_KOI8 = 90"
definition Unknown :: byte where "Unknown = 255"

definition ISO_2022 :: byte where "ISO_2022 = 32"
definition ISO_2022_MAX :: byte where "ISO_2022_MAX = 63"


text \<open>
  Modelled from the spec: the inline predicates \<^verbatim>\<open>IsISO2022()\<close> and \<^verbatim>\<open>IsISO8859()\<close> are
  defined in the missing header.  A key is an ISO 2022 key when it carries the
  \<^verbatim>\<open>ISO_2022\<close> bit and lies in the enumerated ISO 2022 range (\<^verbatim>\<open>InitISO2022\<close> tests the
  same range with \<^verbatim>\<open>key <= ISO_2022_MAX\<close>); the ISO 8859 family are the keys from
  ISO IR 100 to latin10.
\<close>

definition IsISO2022 :: "byte \<Rightarrow> bool" where
  "IsISO2022 key \<longleftrightarrow> key AND ISO_2022 \<noteq> 0 \<and> key \<le> ISO_2022_MAX"

definition IsISO8859 :: "byte \<Rightarrow> bool" where
  "IsISO8859 key \<longleftrightarrow> ISO_IR_100 \<le> key \<and> key \<le> X_LATIN10"

subsection \<open>ISO 2022 state word and escape classes\<close>

text \<open>
  Modelled from the spec: the flags of the ISO 2022 state word are declared in the
  missing header.  The specification (sections 3 and 4.6) describes a bitfield with one
  \<^verbatim>\<open>MULTIBYTE_Gi\<close> flag and one \<^verbatim>\<open>CHARSET96_Gi\<close> flag per slot and an \<^verbatim>\<open>ALTERNATE_CS\<close>
  field that holds a key.  The source addresses the flags of slot \<open>i\<close> as
  \<^verbatim>\<open>MULTIBYTE_G0 << i\<close> and \<^verbatim>\<open>CHARSET96_GX << i\<close>, and stores a key byte under
  \<^verbatim>\<open>ALTERNATE_CS\<close>, which fixes the layout below.
\<close>

type_synonym state = "32 word"

definition ALTERNATE_CS :: state where "ALTERNATE_CS = 0x00FF"
definition MULTIBYTE_G0 :: state where "MULTIBYTE_G0 = 0x0100"
definition MULTIBYTE_G1 :: state where "MULTIBYTE_G1 = 0x0200"
definition MULTIBYTE_G2 :: state where "MULTIBYTE_G2 = 0x0400"
definition MULTIBYTE_G3 :: state where "MULTIBYTE_G3 = 0x0800"
definition CHARSET96_GX :: state where "CHARSET96_GX = 0x1000"
definition CHARSET96_G1 :: state where "CHARSET96_G1 = 0x2000"
definition CHARSET96_G2 :: state where "CHARSET96_G2 = 0x4000"
definition CHARSET96_G3 :: state where "CHARSET96_G3 = 0x8000"

lemmas flag_defs =
  ALTERNATE_CS_def MULTIBYTE_G0_def MULTIBYTE_G1_def MULTIBYTE_G2_def MULTIBYTE_G3_def
  CHARSET96_GX_def CHARSET96_G1_def CHARSET96_G2_def CHARSET96_G3_def

text \<open>The classes of escape sequences that \<^verbatim>\<open>EscapeCode\<close> returns.\<close>

datatype EscapeType =
  CODE_ACS | CODE_CZD | CODE_C1D | CODE_GZD | CODE_G1D | CODE_G2D | CODE_G3D
  | CODE_DOCS | CODE_CMD | CODE_IRR | CODE_SS2 | CODE_SS3
  | CODE_LS2 | CODE_LS3 | CODE_LS1R | CODE_LS2R | CODE_LS3R
  | CODE_OTHER | CODE_ERROR

text \<open>How a failed conversion is rendered (\<^verbatim>\<open>enum { UTF8_IGNORE, UTF8_REPLACE, UTF8_ESCAPE }\<close>).\<close>

datatype mode = UTF8_IGNORE | UTF8_REPLACE | UTF8_ESCAPE

section \<open>Compressed lookup tables\<close>

text \<open>
  The conversion tables themselves (vtkDICOMCharacterSetTables) are generated data that
  is not among the sources; every function that reads a table takes the packed
  \<^verbatim>\<open>unsigned short\<close> array as an argument.  \<^verbatim>\<open>RCHAR\<close>, the value for "not in the table", is
  declared with the tables; the specification gives it as the sentinel 0xFFFD, and the
  reversed tables of the source return the literal 0xFFFD for the same purpose.

  The array is laid out as \<open>[M, H\<^sub>0 .. H\<^sub>M\<^sub>-\<^sub>1, N, L\<^sub>0 .. ]\<close>; \<open>HTable\<close> starts at index 1 and
  \<open>LTable\<close> at index \<open>M + 2\<close>.  A pointer into the array is the index it points at.
  An index beyond the end of the list, which in C++ is a read outside the static array,
  reads as 0.
\<close>

definition RCHAR :: "16 word" where "RCHAR = 0xFFFD"

definition at16 :: "16 word list \<Rightarrow> nat \<Rightarrow> 16 word" where
  "at16 t i = (if i < length t then t ! i else 0)"

text \<open>
  \<^verbatim>\<open>CompressedTable::operator[]\<close>.  The hot ranges are probed in order; otherwise
  \<^verbatim>\<open>std::upper_bound\<close> finds the first range start above \<open>x\<close> (the starts are sorted, so
  that is the number of leading starts that are at most \<open>x\<close>).  \<open>p\<close> is the pointer
  \<open>uptr\<close> after \<^verbatim>\<open>uptr--\<close>.  The additions are 16-bit, as in the source.
\<close>

definition CompressedTable :: "16 word list \<Rightarrow> 16 word \<Rightarrow> 16 word" where
  "CompressedTable table x =
    (let M = unat (at16 table 0);
         N = unat (at16 table (M + 1));
         HTable = (\<lambda>k. unat (at16 table (1 + k)));
         LTable = (\<lambda>i. at16 table (M + 2 + i));
         hot = filter (\<lambda>k. LTable (HTable k) \<le> x
                          \<and> (HTable k + 1 = N \<or> x < LTable (HTable k + 1))) [0..<M];
         u = (case hot of
                k # _ \<Rightarrow> HTable k + 1
              | [] \<Rightarrow> length (takeWhile (\<lambda>v. v \<le> x) (map LTable [0..<N])));
         p = M + 1 + u;
         y = at16 table (p + N)
     in if y \<noteq> RCHAR then y + (x - at16 table p)
        else let y = at16 table (p + 2 * N)
             in if y \<noteq> RCHAR then LTable (3 * N + unat (y + (x - at16 table p)))
                else y)"

text \<open>
  \<^verbatim>\<open>CompressedTable::GetBlock(x)\<close>: the part of the dense region that starts at the
  range start \<open>x\<close>, found among the hot ranges (the last hot range when none starts at
  \<open>x\<close>, as the loop of the source leaves \<open>uptr\<close> there).
\<close>

definition GetBlock :: "16 word list \<Rightarrow> 16 word \<Rightarrow> 16 word list" where
  "GetBlock table x =
    (let M = unat (at16 table 0);
         N = unat (at16 table (M + 1));
         HTable = (\<lambda>k. unat (at16 table (1 + k)));
         LTable = (\<lambda>i. at16 table (M + 2 + i));
         h = (case filter (\<lambda>k. LTable (HTable k) = x) [0..<M] of
                k # _ \<Rightarrow> HTable k
              | [] \<Rightarrow> HTable (M - 1));
         y = at16 table (M + 2 + h + 2 * N) + (x - LTable h)
     in drop (M + 2 + 3 * N + unat y) table)"

text \<open>The reversed tables take an \<^verbatim>\<open>unsigned int\<close> code point.\<close>

definition CompressedTableR :: "16 word list \<Rightarrow> nat \<Rightarrow> nat" where
  "CompressedTableR table x =
    (if x \<le> 0xFFFD then unat (CompressedTable table (of_nat x)) else 0xFFFD)"


text \<open>A forward lookup with an \<^verbatim>\<open>unsigned short\<close> index computed from bytes.\<close>

definition lookup :: "16 word list \<Rightarrow> nat \<Rightarrow> nat" where
  "lookup table a = unat (CompressedTable table (of_nat a))"

section \<open>UTF-8\<close>

text \<open>\<^verbatim>\<open>UnicodeToUTF8(code, s)\<close>: the bytes appended to \<open>s\<close>.\<close>

definition UnicodeToUTF8 :: "nat \<Rightarrow> bytes" where
  "UnicodeToUTF8 code =
    (if code \<le> 0x007F then [of_nat code]
     else if code \<le> 0x07FF then
       [of_nat (0xC0 OR drop_bit 6 code), of_nat (0x80 OR (code AND 0x3F))]
     else if code \<le> 0xFFFF then
       [of_nat (0xE0 OR drop_bit 12 code), of_nat (0x80 OR (drop_bit 6 code AND 0x3F)),
        of_nat (0x80 OR (code AND 0x3F))]
     else if code \<le> 0x10FFFF then
       [of_nat (0xF0 OR drop_bit 18 code), of_nat (0x80 OR (drop_bit 12 code AND 0x3F)),
        of_nat (0x80 OR (drop_bit 6 code AND 0x3F)), of_nat (0x80 OR (code AND 0x3F))]
     else [0xEF, 0xBF, 0xBD])"

text \<open>
  \<^verbatim>\<open>UTF8ToUnicode(&cp, cpEnd)\<close>: the argument is the text from \<open>cp\<close> to \<open>cpEnd\<close>, the
  result is the code and the number of bytes \<open>cp\<close> has advanced.  The three multi-byte
  branches of the source are separate definitions; each returns the flag \<open>good\<close>
  (1, 0 for malformed, -1 for premature end), the code assembled so far and the
  advance of \<open>cp\<close>.  The first argument is the lead byte, the second the bytes after it.
\<close>

definition UTF8_surrogate_pair :: "nat \<Rightarrow> bytes \<Rightarrow> int \<times> nat \<times> nat" where
  "UTF8_surrogate_pair code t3 =
    (case t3 of
       [] \<Rightarrow> (- 1, code, 3)
     | b0 # r0 \<Rightarrow>
         if b0 \<noteq> 0xED then (0, code, 3)
         else (case r0 of
            [] \<Rightarrow> (- 1, code, 3)
          | b1 # r1 \<Rightarrow>
              if unat b1 AND 0xF0 \<noteq> 0xB0 then (0, code, 3)
              else (case r1 of
                 [] \<Rightarrow> (- 1, code, 3)
               | b2 # r2 \<Rightarrow>
                   if unat b2 AND 0xC0 \<noteq> 0x80 then (0, code, 3)
                   else (1,
                         (push_bit 6 (push_bit 4 (code AND 0x03FF) OR (unat b1 AND 0x0F))
                            OR (unat b2 AND 0x3F)) + 0x010000,
                         6))))"

definition UTF8_two :: "nat \<Rightarrow> bytes \<Rightarrow> int \<times> nat \<times> nat" where
  "UTF8_two c t1 =
    (let code = push_bit 6 (c AND 0x1F) in
     if code AND 0x0780 = 0 then (0, code, 1)
     else (case t1 of
        [] \<Rightarrow> (- 1, code, 1)
      | s1 # r \<Rightarrow>
          let s = unat s1 in
          if s AND 0xC0 = 0x80 then (1, code OR (s AND 0x3F), 2)
          else (0, code OR (s AND 0x3F), 1)))"

definition UTF8_three :: "nat \<Rightarrow> bytes \<Rightarrow> int \<times> nat \<times> nat" where
  "UTF8_three c t1 =
    (case t1 of
       [] \<Rightarrow> (- 1, c, 1)
     | s1 # t2 \<Rightarrow>
         let code = push_bit 6 (c AND 0x0F); s = unat s1 in
         if \<not> ((code OR (s AND 0x20)) \<noteq> 0 \<and> s AND 0xC0 = 0x80) then (0, code, 1)
         else
           let code = push_bit 6 (code OR (s AND 0x3F)) in
           (case t2 of
              [] \<Rightarrow> (- 1, code, 2)
            | s2 # t3 \<Rightarrow>
                let s = unat s2; code = code OR (s AND 0x3F) in
                if s AND 0xC0 \<noteq> 0x80 then (0, code, 2)
                else if code AND 0xFC00 = 0xD800 then UTF8_surrogate_pair code t3
                else (1, code, 3)))"

definition UTF8_four :: "nat \<Rightarrow> bytes \<Rightarrow> int \<times> nat \<times> nat" where
  "UTF8_four c t1 =
    (case t1 of
       [] \<Rightarrow> (- 1, c, 1)
     | s1 # t2 \<Rightarrow>
         let code = push_bit 6 (c AND 0x07); s = unat s1 in
         if \<not> ((code OR (s AND 0x30)) \<noteq> 0 \<and> s AND 0xC0 = 0x80) then (0, code, 1)
         else
           (case t2 of
              [] \<Rightarrow> (- 1, code, 2)
            | s2 # t3 \<Rightarrow>
                let code = push_bit 6 (code OR (s AND 0x3F)); s = unat s2 in
                if s AND 0xC0 \<noteq> 0x80 then (0, code, 2)
                else
                  (case t3 of
                     [] \<Rightarrow> (- 1, code, 3)
                   | s3 # r \<Rightarrow>
                       let code = push_bit 6 (code OR (s AND 0x3F)); s = unat s3;
                           code = code OR (s AND 0x3F) in
                       if s AND 0xC0 \<noteq> 0x80 then (0, code, 3)
                       else if code \<le> 0x10FFFF then (1, code, 4)
                       else (0, code, 4))))"

text \<open>
  The end of the function: an improperly formed character is 0xFFFF, a premature end of
  the string is 0xFFFE.
\<close>

definition UTF8_result :: "int \<times> nat \<times> nat \<Rightarrow> nat \<times> nat" where
  "UTF8_result r =
    (case r of (good, code, n) \<Rightarrow>
       (if good = 0 then 0xFFFF else if good < 0 then 0xFFFE else code, n))"

definition UTF8ToUnicode :: "bytes \<Rightarrow> nat \<times> nat" where
  "UTF8ToUnicode t =
    (case t of
       [] \<Rightarrow> (0, 0)
     | c0 # t1 \<Rightarrow>
         let code = unat c0 in
         if code AND 0x80 = 0 then (code, 1)
         else UTF8_result
               (if code AND 0xE0 = 0xC0 then UTF8_two code t1
                else if code AND 0xF0 = 0xE0 then UTF8_three code t1
                else if code AND 0xF8 = 0xF0 then UTF8_four code t1
                else (0, code, 1)))"

subsection \<open>A reference reading of UTF-8\<close>

text \<open>
  The specification's reading of the sequence at the cursor, written with byte ranges
  instead of bit masks, to compare \<^verbatim>\<open>UTF8ToUnicode\<close> with.  A sequence is malformed
  when its lead byte is a continuation byte (80 to BF) or an illegal lead (F8 to FF),
  when it is an overlong form (lead C0 or C1, E0 followed by less than A0, F0 followed
  by less than 90), when a byte that must be a continuation byte is not one, when a
  four-byte value is above 0x10FFFF, or when a high surrogate is not followed by a low
  surrogate.  It is truncated when the text ends where a further byte of the sequence
  (or of the low surrogate after a high surrogate) is due.  Otherwise it is the scalar
  it encodes; a surrogate pair is one scalar.  The second component is the number of
  bytes that belong to the reading.
\<close>

datatype utf8_class = Scalar nat | Malformed | Truncated

definition utf8_cont :: "nat \<Rightarrow> bool" where
  "utf8_cont s \<longleftrightarrow> 0x80 \<le> s \<and> s \<le> 0xBF"

definition utf8_ref_low :: "nat \<Rightarrow> nat list \<Rightarrow> utf8_class \<times> nat" where
  "utf8_ref_low hi r =
    (case r of
       [] \<Rightarrow> (Truncated, 3)
     | b3 # r3 \<Rightarrow>
         if b3 = 0xED then
           (case r3 of
              [] \<Rightarrow> (Truncated, 3)
            | b4 # r4 \<Rightarrow>
                if 0xB0 \<le> b4 \<and> b4 \<le> 0xBF then
                  (case r4 of
                     [] \<Rightarrow> (Truncated, 3)
                   | b5 # r5 \<Rightarrow>
                       if utf8_cont b5
                       then (Scalar (0x10000 + (hi - 0xD800) * 1024
                                      + (b4 - 0xB0) * 64 + (b5 - 0x80)), 6)
                       else (Malformed, 3))
                else (Malformed, 3))
         else (Malformed, 3))"

definition utf8_ref3 :: "nat \<Rightarrow> nat list \<Rightarrow> utf8_class \<times> nat" where
  "utf8_ref3 b0 r =
    (case r of
       [] \<Rightarrow> (Truncated, 1)
     | b1 # r1 \<Rightarrow>
         if utf8_cont b1 \<and> \<not> (b0 = 0xE0 \<and> b1 < 0xA0) then
           (case r1 of
              [] \<Rightarrow> (Truncated, 2)
            | b2 # r2 \<Rightarrow>
                if utf8_cont b2 then
                  (let c = (b0 - 0xE0) * 4096 + (b1 - 0x80) * 64 + (b2 - 0x80)
                   in if 0xD800 \<le> c \<and> c \<le> 0xDBFF then utf8_ref_low c r2
                      else (Scalar c, 3))
                else (Malformed, 2))
         else (Malformed, 1))"

definition utf8_ref4 :: "nat \<Rightarrow> nat list \<Rightarrow> utf8_class \<times> nat" where
  "utf8_ref4 b0 r =
    (case r of
       [] \<Rightarrow> (Truncated, 1)
     | b1 # r1 \<Rightarrow>
         if utf8_cont b1 \<and> \<not> (b0 = 0xF0 \<and> b1 < 0x90) then
           (case r1 of
              [] \<Rightarrow> (Truncated, 2)
            | b2 # r2 \<Rightarrow>
                if utf8_cont b2 then
                  (case r2 of
                     [] \<Rightarrow> (Truncated, 3)
                   | b3 # r3 \<Rightarrow>
                       if utf8_cont b3 then
                         (let c = (b0 - 0xF0) * 262144 + (b1 - 0x80) * 4096
                                  + (b2 - 0x80) * 64 + (b3 - 0x80)
                          in if c \<le> 0x10FFFF then (Scalar c, 4) else (Malformed, 4))
                       else (Malformed, 3))
                else (Malformed, 2))
         else (Malformed, 1))"

definition utf8_reference :: "bytes \<Rightarrow> utf8_class \<times> nat" where
  "utf8_reference t =
    (case map unat t of
       [] \<Rightarrow> (Scalar 0, 0)
     | b0 # r \<Rightarrow>
         if b0 < 0x80 then (Scalar b0, 1)
         else if b0 < 0xC0 then (Malformed, 1)
         else if b0 < 0xC2 then (Malformed, 1)
         else if b0 < 0xE0 then
           (case r of
              [] \<Rightarrow> (Truncated, 1)
            | b1 # r1 \<Rightarrow>
                if utf8_cont b1 then (Scalar ((b0 - 0xC0) * 64 + (b1 - 0x80)), 2)
                else (Malformed, 1))
         else if b0 < 0xF0 then utf8_ref3 b0 r
         else if b0 < 0xF8 then utf8_ref4 b0 r
         else (Malformed, 1))"

text \<open>What \<^verbatim>\<open>UTF8ToUnicode\<close> returns for a reading: the scalar or one of the sentinels.\<close>

definition utf8_value :: "utf8_class \<Rightarrow> nat" where
  "utf8_value c = (case c of Scalar x \<Rightarrow> x | Malformed \<Rightarrow> 0xFFFF | Truncated \<Rightarrow> 0xFFFE)"

text \<open>The pair \<^verbatim>\<open>UTF8ToUnicode\<close> returns for a reading: its value and the advance of \<open>cp\<close>.\<close>

definition utf8_returns :: "utf8_class \<times> nat \<Rightarrow> nat \<times> nat" where
  "utf8_returns p = (utf8_value (fst p), snd p)"

text \<open>
  \<^verbatim>\<open>BadCharsToUTF8(cp, ep, s, mode)\<close>: what is appended for the undecodable bytes from
  \<open>cp\<close> to \<open>ep\<close>.
\<close>

definition BadCharsToUTF8 :: "bytes \<Rightarrow> mode \<Rightarrow> bytes" where
  "BadCharsToUTF8 badchars m =
    (case m of
       UTF8_REPLACE \<Rightarrow> UnicodeToUTF8 0xFFFD
     | UTF8_ESCAPE \<Rightarrow> concat (map (\<lambda>c. UnicodeToUTF8 (0xDC00 + unat c)) badchars)
     | UTF8_IGNORE \<Rightarrow> [])"

section \<open>Well-formed UTF-8 text\<close>



text \<open>
  The byte strings that are a sequence of encodings, as \<^verbatim>\<open>UnicodeToUTF8\<close> writes them, of
  code points that satisfy \<open>P\<close>.  Well-formed UTF-8 is \<open>utf8_text utf8_scalar\<close>.
\<close>

inductive_set utf8_text :: "(nat \<Rightarrow> bool) \<Rightarrow> bytes set" for P :: "nat \<Rightarrow> bool" where
  empty: "[] \<in> utf8_text P"
| char: "P c \<Longrightarrow> r \<in> utf8_text P \<Longrightarrow> UnicodeToUTF8 c @ r \<in> utf8_text P"

section \<open>The conversion loop\<close>

text \<open>
  The decoders and encoders share one loop:
  \<^verbatim>\<open>while (cp != ep) { lastpos = cp; ... } return (errpos ? errpos-text : cp-text);\<close>
  where one iteration advances \<open>cp\<close>, appends to the output and may record \<open>lastpos\<close>
  as the error position, unless an earlier iteration has recorded one.  An iteration is
  modelled by a function from the text at \<open>lastpos\<close> to a value \<open>Conv used out bad stop\<close>:
  the advance of \<open>cp\<close>, the bytes appended, whether the iteration records an error, and
  whether it leaves the loop by \<^verbatim>\<open>break\<close>.  Every iteration of the source advances \<open>cp\<close>
  by at least one byte.  The loop returns the output, the error position if any, and
  the final \<open>cp\<close>.
\<close>

datatype conv = Conv (used: nat) (out: bytes) (bad: bool) (stop: bool)

function conv_loop :: "(bytes \<Rightarrow> conv) \<Rightarrow> nat \<Rightarrow> bytes \<Rightarrow> bytes \<times> nat option \<times> nat" where
  "conv_loop f pos [] = ([], None, pos)"
| "conv_loop f pos (c # cs) =
    (let r = f (c # cs) in
     if stop r then (out r, if bad r then Some pos else None, pos + used r)
     else
       let (s, e, p) = conv_loop f (pos + used r) (drop (used r - 1) cs)
       in (out r @ s, if bad r then Some pos else e, p))"
  by pat_completeness auto
termination
  by (relation "measure (\<lambda>(f, pos, t). length t)") auto

definition conv_result :: "bytes \<times> nat option \<times> nat \<Rightarrow> bytes \<times> nat" where
  "conv_result r = (case r of (s, e, p) \<Rightarrow> (s, case e of Some x \<Rightarrow> x | None \<Rightarrow> p))"

definition convert :: "(bytes \<Rightarrow> conv) \<Rightarrow> bytes \<Rightarrow> bytes \<times> nat" where
  "convert f text = conv_result (conv_loop f 0 text)"

text \<open>
  \<^verbatim>\<open>LastChanceConversion(s, cp, ep)\<close>: the replacement appended for the character at
  \<open>cp\<close> and whether the conversion counts as a success.
\<close>

definition LastChanceConversion :: "bytes \<Rightarrow> bytes \<times> bool" where
  "LastChanceConversion t =
    (let code = fst (UTF8ToUnicode t) in
     if code = 0xA0 \<or> (0x2000 \<le> code \<and> code \<le> 0x200A) \<or> code = 0x202F then ([0x20], True)
     else if code = 0xAD \<or> (0x200B \<le> code \<and> code \<le> 0x200D) \<or> code = 0x2060 then ([], True)
     else if 0x2010 \<le> code \<and> code \<le> 0x2014 then ([0x2D], True)
     else if code = 0x2015 then ([0x2D, 0x2D], True)
     else if 0x2018 \<le> code \<and> code \<le> 0x201B then ([0x27], True)
     else if 0x201C \<le> code \<and> code \<le> 0x201F then ([0x22], True)
     else if code = 0x2026 then ([0x2E, 0x2E, 0x2E], True)
     else if code = 0x2044 then ([0x2F], True)
     else if code = 0x2053 then ([0x7E], True)
     else if code = 0xFFFE then ([], False)
     else ([0x3F], False))"

text \<open>
  The common end of a decoder iteration: a code of 0xFFFD is an error and renders the
  bytes consumed as bad characters, any other code is written as UTF-8.  \<open>pre\<close> is what
  the iteration has already appended.
\<close>

definition decoded :: "mode \<Rightarrow> bytes \<Rightarrow> nat \<Rightarrow> bytes \<Rightarrow> nat \<Rightarrow> conv" where
  "decoded m t n pre code =
    (if code = 0xFFFD then Conv n (pre @ BadCharsToUTF8 (take n t) m) True False
     else Conv n (pre @ UnicodeToUTF8 code) False False)"

section \<open>UTF-8 to UTF-8, ASCII and unknown character sets\<close>







section \<open>Shift-JIS\<close>

text \<open>One iteration of \<^verbatim>\<open>SJISToUTF8\<close>; \<open>table\<close> is \<^verbatim>\<open>Table[X_SJIS]\<close>.\<close>

definition SJISToUTF8_char :: "16 word list \<Rightarrow> mode \<Rightarrow> bytes \<Rightarrow> conv" where
  "SJISToUTF8_char table m t =
    (case t of
       [] \<Rightarrow> Conv 0 [] False True
     | c # cs \<Rightarrow>
         if c AND 0x80 = 0 then Conv 1 [c] False False
         else
           let x = unat c; y = (case cs of [] \<Rightarrow> 0 | d # _ \<Rightarrow> unat d) in
           if x \<ge> 0xA1 \<and> x \<le> 0xDF then decoded m t 1 [] (x + 0xFEC0)
           else if x \<noteq> 0x80 \<and> x \<noteq> 0xA0 \<and> x \<le> 0xFC \<and> cs \<noteq> []
                   \<and> y \<ge> 0x40 \<and> y \<le> 0xFC \<and> y \<noteq> 0x7F then
             (let a = (if y < 0x9F then 0 else 1);
                  b = (if y < 0x9F then y - (if y < 0x7F then 0x40 else 0x41) else y - 0x9F);
                  a = a + (if x \<le> 0x9F then (x - 0x81) * 2 else (x - 0xC1) * 2);
                  code = lookup table (a * 94 + b);
                  code = (if x = 0x81 then
                            (if y = 0x5C then 0x2015
                             else if y = 0x5F then 0xFF3C
                             else if y = 0x60 then 0xFF5E
                             else if y = 0x61 then 0x2225
                             else if y = 0x7C then 0xFF0D
                             else if y = 0x91 then 0xFFE0
                             else if y = 0x92 then 0xFFE1
                             else if y = 0xCA then 0xFFE2
                             else code)
                          else code)
              in decoded m t 2 [] code)
           else decoded m t 1 [] 0xFFFD)"

definition SJISToUTF8 :: "16 word list \<Rightarrow> bytes \<Rightarrow> mode \<Rightarrow> bytes \<times> nat" where
  "SJISToUTF8 table text m = convert (SJISToUTF8_char table m) text"

section \<open>Big5\<close>

text \<open>One iteration of \<^verbatim>\<open>Big5ToUTF8\<close>; \<open>table\<close> is \<^verbatim>\<open>Table[X_BIG5]\<close>.\<close>

definition Big5ToUTF8_char :: "16 word list \<Rightarrow> mode \<Rightarrow> bytes \<Rightarrow> conv" where
  "Big5ToUTF8_char table m t =
    (case t of
       [] \<Rightarrow> Conv 0 [] False True
     | c # cs \<Rightarrow>
         if c AND 0x80 = 0 then Conv 1 [c] False False
         else
           let x = unat c; y = (case cs of [] \<Rightarrow> 0 | d # _ \<Rightarrow> unat d) in
           if x \<ge> 0x81 \<and> x \<le> 0xFE \<and> cs \<noteq> []
              \<and> ((y \<ge> 0x40 \<and> y \<le> 0x7E) \<or> (y \<ge> 0xA1 \<and> y \<le> 0xFE)) then
             (let offset = (if y < 0x7F then 0x40 else 0x62);
                  tt = (x - 0x81) * 157 + (y - offset);
                  code = (if tt = 11205 then 0x200CC
                          else if tt = 11207 then 0x2008A
                          else if tt = 11213 then 0x27607
                          else lookup table tt)
              in decoded m t 2 [] code)
           else decoded m t 1 [] 0xFFFD)"

definition Big5ToUTF8 :: "16 word list \<Rightarrow> bytes \<Rightarrow> mode \<Rightarrow> bytes \<times> nat" where
  "Big5ToUTF8 table text m = convert (Big5ToUTF8_char table m) text"

section \<open>GBK and GB2312\<close>

text \<open>One iteration of \<^verbatim>\<open>GBKToUTF8\<close>; \<open>table\<close> is \<^verbatim>\<open>Table[GBK]\<close>.\<close>

definition GBKToUTF8_char :: "16 word list \<Rightarrow> mode \<Rightarrow> bytes \<Rightarrow> conv" where
  "GBKToUTF8_char table m t =
    (case t of
       [] \<Rightarrow> Conv 0 [] False True
     | c # cs \<Rightarrow>
         if c AND 0x80 = 0 then Conv 1 [c] False False
         else
           let a = unat c; b = (case cs of [] \<Rightarrow> 0 | d # _ \<Rightarrow> unat d) in
           if a > 0x80 \<and> a < 0xFF \<and> cs \<noteq> [] \<and> b \<ge> 0x40 \<and> b < 0xFF \<and> b \<noteq> 0x7F then
             (if a < 0xA1 then
                decoded m t 2 []
                  (lookup table ((a - 0x81) * 190 + ((if b > 0x7F then b - 1 else b) - 0x40) + 8836))
              else if b < 0xA1 then
                decoded m t 2 []
                  (lookup table ((a - 0xA1) * 96 + ((if b > 0x7F then b - 1 else b) - 0x40) + 8836 + 6080))
              else decoded m t 2 [] (lookup table ((a - 0xA1) * 94 + (b - 0xA1))))
           else decoded m t 1 [] 0xFFFD)"

definition GBKToUTF8 :: "16 word list \<Rightarrow> bytes \<Rightarrow> mode \<Rightarrow> bytes \<times> nat" where
  "GBKToUTF8 table text m = convert (GBKToUTF8_char table m) text"

text \<open>One iteration of \<^verbatim>\<open>GB2312ToUTF8\<close>; \<open>table\<close> is \<^verbatim>\<open>Table[X_GB2312]\<close>.\<close>

definition GB2312ToUTF8_char :: "16 word list \<Rightarrow> mode \<Rightarrow> bytes \<Rightarrow> conv" where
  "GB2312ToUTF8_char table m t =
    (case t of
       [] \<Rightarrow> Conv 0 [] False True
     | c # cs \<Rightarrow>
         if c AND 0x80 = 0 then Conv 1 [c] False False
         else
           let a = unat c; b = (case cs of [] \<Rightarrow> 0 | d # _ \<Rightarrow> unat d) in
           if a \<ge> 0xA1 \<and> a < 0xFF \<and> cs \<noteq> [] \<and> b \<ge> 0xA1 \<and> b < 0xFF
           then decoded m t 2 [] (lookup table ((a - 0xA1) * 94 + (b - 0xA1)))
           else decoded m t 1 [] 0xFFFD)"

definition GB2312ToUTF8 :: "16 word list \<Rightarrow> bytes \<Rightarrow> mode \<Rightarrow> bytes \<times> nat" where
  "GB2312ToUTF8 table text m = convert (GB2312ToUTF8_char table m) text"

section \<open>JIS X 0201, 0208 and 0212 under ISO 2022\<close>



section \<open>Single-byte character sets\<close>

text \<open>
  One iteration of \<^verbatim>\<open>SingleByteToUTF8\<close>; \<open>table\<close> is \<^verbatim>\<open>Table[Key]\<close>, or \<^verbatim>\<open>Table[ISO_IR_6]\<close>
  when the key has no table.
\<close>

definition SingleByteToUTF8_char :: "16 word list \<Rightarrow> mode \<Rightarrow> bytes \<Rightarrow> conv" where
  "SingleByteToUTF8_char table m t =
    (case t of
       [] \<Rightarrow> Conv 0 [] False True
     | c # cs \<Rightarrow> decoded m t 1 [] (lookup table (unat c)))"

definition SingleByteToUTF8 :: "16 word list \<Rightarrow> bytes \<Rightarrow> mode \<Rightarrow> bytes \<times> nat" where
  "SingleByteToUTF8 table text m = convert (SingleByteToUTF8_char table m) text"

text \<open>
  One iteration of \<^verbatim>\<open>ISO8859ToUTF8\<close>.  For the bytes 0x80 to 0x9F the Windows code page
  extensions \<open>wincodes\<close> replace the table's code where the bit of the byte is set in
  \<open>wincodesUsed\<close>.
\<close>

definition wincodes :: "nat list" where
  "wincodes =
    [0x20AC, 0xFFFD, 0x201A, 0x0192, 0x201E, 0x2026, 0x2020, 0x2021,
     0x02C6, 0x2030, 0x0160, 0x2039, 0x0152, 0xFFFD, 0x017D, 0xFFFD,
     0xFFFD, 0x2018, 0x2019, 0x201C, 0x201D, 0x2022, 0x2013, 0x2014,
     0x02DC, 0x2122, 0x0161, 0x203A, 0x0153, 0xFFFD, 0x017E, 0x0178]"

definition wincodesUsed :: "byte \<Rightarrow> 32 word" where
  "wincodesUsed key =
    (if key = ISO_IR_100 then 0xDFFE5FFD
     else if key = ISO_IR_148 then 0x9FFE1FFD
     else if key = ISO_IR_166 then 0x00FE0021
     else 0)"

definition ISO8859ToUTF8_char :: "byte \<Rightarrow> 16 word list \<Rightarrow> mode \<Rightarrow> bytes \<Rightarrow> conv" where
  "ISO8859ToUTF8_char key table m t =
    (case t of
       [] \<Rightarrow> Conv 0 [] False True
     | c # cs \<Rightarrow>
         if c AND 0x80 = 0 then Conv 1 [c] False False
         else
           let x = unat c;
               code = lookup table x;
               code = (if x < 0xA0 \<and> push_bit (x - 0x80) 1 AND wincodesUsed key \<noteq> 0
                       then wincodes ! (x - 0x80) else code)
           in decoded m t 1 [] code)"

definition ISO8859ToUTF8 :: "byte \<Rightarrow> 16 word list \<Rightarrow> bytes \<Rightarrow> mode \<Rightarrow> bytes \<times> nat" where
  "ISO8859ToUTF8 key table text m = convert (ISO8859ToUTF8_char key table m) text"

section \<open>GB18030\<close>

text \<open>One iteration of \<^verbatim>\<open>GB18030ToUTF8\<close>; \<open>table\<close> is \<^verbatim>\<open>Table[GB18030]\<close>.\<close>

definition GB18030ToUTF8_char :: "16 word list \<Rightarrow> mode \<Rightarrow> bytes \<Rightarrow> conv" where
  "GB18030ToUTF8_char table m t =
    (case t of
       [] \<Rightarrow> Conv 0 [] False True
     | c # cs \<Rightarrow>
         if c AND 0x80 = 0 then Conv 1 [c] False False
         else if cs = [] then Conv 1 [] True True
         else
           let a = unat c; b = unat (hd cs);
               (code, n) =
                 (if a > 0x80 \<and> a < 0xFF \<and> b \<ge> 0x30 \<and> b < 0xFF \<and> b \<noteq> 0x7F then
                    (if b \<ge> 0x40 then
                       (if a < 0xA1 then
                          (lookup table ((a - 0x81) * 190 + ((if b > 0x7F then b - 1 else b) - 0x40) + 8836), 2)
                        else if b < 0xA1 then
                          (lookup table ((a - 0xA1) * 96 + ((if b > 0x7F then b - 1 else b) - 0x40) + (8836 + 6080)), 2)
                        else (lookup table ((a - 0xA1) * 94 + (b - 0xA1)), 2))
                     else if length cs \<ge> 3
                             \<and> unat (cs ! 1) > 0x80 \<and> unat (cs ! 1) < 0xFF
                             \<and> 0x30 \<le> cs ! 2 \<and> cs ! 2 \<le> 0x39 then
                       (let x = unat (cs ! 1); y = unat (cs ! 2);
                            a = (a - 0x81) * 10 + (b - 0x30);
                            b = (x - 0x81) * 10 + (y - 0x30)
                        in if a < 32 then (lookup table (a * 1260 + b + 23940), 4)
                           else if a \<ge> 150 \<and> (a - 150) * 1260 + b \<le> 0xFFFFF
                             then ((a - 150) * 1260 + b + 0x10000, 4)
                           else (0xFFFD, 4))
                     else (0xFFFD, 2))
                  else (0xFFFD, 1))
           in if code = 0xFFFD \<and> \<not> (n \<ge> 4 \<and> take 4 t = [0x84, 0x31, 0xA4, 0x37])
              then Conv n (BadCharsToUTF8 (take n t) m) True False
              else Conv n (UnicodeToUTF8 code) False False)"

definition GB18030ToUTF8 :: "16 word list \<Rightarrow> bytes \<Rightarrow> mode \<Rightarrow> bytes \<times> nat" where
  "GB18030ToUTF8 table text m = convert (GB18030ToUTF8_char table m) text"

section \<open>EUC-JP\<close>

text \<open>
  One iteration of \<^verbatim>\<open>EUCJPToUTF8\<close>; the tables are \<^verbatim>\<open>Table[ISO_2022_IR_87]\<close> and
  \<^verbatim>\<open>Table[ISO_2022_IR_159]\<close>.  The prefix 0x8F with one byte left leaves the loop by
  \<^verbatim>\<open>break\<close> after the prefix byte, without recording an error position.
\<close>

definition EUCJPToUTF8_char :: "16 word list \<Rightarrow> 16 word list \<Rightarrow> mode \<Rightarrow> bytes \<Rightarrow> conv" where
  "EUCJPToUTF8_char jisx0208 jisx0212 m t =
    (case t of
       [] \<Rightarrow> Conv 0 [] False True
     | c # cs \<Rightarrow>
         if c AND 0x80 = 0 then Conv 1 [c] False False
         else
           let x = unat c; y = (case cs of [] \<Rightarrow> 0 | d # _ \<Rightarrow> unat d) in
           if x \<ge> 0x80 \<and> x < 0xFF \<and> cs \<noteq> [] \<and> y \<ge> 0xA1 \<and> y < 0xFF then
             (if x \<ge> 0xA1 \<and> x < 0xFF then
                decoded m t 2 [] (lookup jisx0208 ((x - 0xA1) * 94 + (y - 0xA1)))
              else if x = 0x8F then
                (if length cs = 1 then Conv 1 [] False True
                 else
                   let y2 = unat (cs ! 1) in
                   if y2 \<ge> 0xA1 \<and> y2 < 0xFF
                   then decoded m t 3 [] (lookup jisx0212 ((y - 0xA1) * 94 + (y2 - 0xA1)))
                   else decoded m t 1 [] 0xFFFD)
              else if x = 0x8E \<and> y \<le> 0xDF then decoded m t 2 [] (y + 0xFEC0)
              else decoded m t 1 [] 0xFFFD)
           else decoded m t 1 [] 0xFFFD)"

definition EUCJPToUTF8 ::
  "16 word list \<Rightarrow> 16 word list \<Rightarrow> bytes \<Rightarrow> mode \<Rightarrow> bytes \<times> nat" where
  "EUCJPToUTF8 jisx0208 jisx0212 text m = convert (EUCJPToUTF8_char jisx0208 jisx0212 m) text"

section \<open>EUC-KR\<close>

text \<open>
  One iteration of \<^verbatim>\<open>UTF8ToEUCKR\<close>; \<open>table\<close> is \<^verbatim>\<open>Reverse[X_EUCKR]\<close>.  \<open>tableL\<close> and
  \<open>tableT\<close> are the two static arrays of the function.
\<close>

definition enc_tableL :: "nat list" where
  "enc_tableL = [0, 1, 3, 6, 7, 8, 16, 17, 18, 20, 21, 22, 23, 24, 25, 26, 27, 28, 29]"

definition enc_tableT :: "nat list" where
  "enc_tableT = [51, 0, 1, 2, 3, 4, 5, 6, 8, 9, 10, 11, 12, 13, 14, 15,
                 16, 17, 19, 20, 21, 22, 23, 25, 26, 27, 28, 29]"

definition UTF8ToEUCKR_char :: "16 word list \<Rightarrow> bytes \<Rightarrow> conv" where
  "UTF8ToEUCKR_char table t =
    (let (code, n) = UTF8ToUnicode t in
     if code < 0x80 then Conv n [of_nat code] False False
     else
       let tt = CompressedTableR table code in
       if tt < 8836 then
         Conv n [of_nat (0xA1 + tt div 94), of_nat (0xA1 + tt mod 94)] False False
       else if code \<ge> 0xAC00 \<and> code \<le> 0xD7A3 then
         (let z = code - 0xAC00;
              T = z mod 28;
              z = z div 28;
              V = z mod 21;
              L = z div 21
          in Conv n [0xA4, 0xD4, 0xA4, of_nat (0xA1 + enc_tableL ! L),
                     0xA4, of_nat (0xBF + V), 0xA4, of_nat (0xA1 + enc_tableT ! T)]
                  False False)
       else
         let (rep, ok) = LastChanceConversion t in Conv n rep (\<not> ok) False)"

definition UTF8ToEUCKR :: "16 word list \<Rightarrow> bytes \<Rightarrow> bytes \<times> nat" where
  "UTF8ToEUCKR table text = convert (UTF8ToEUCKR_char table) text"

text \<open>
  One iteration of \<^verbatim>\<open>EUCKRToUTF8\<close>; \<open>table\<close> is \<^verbatim>\<open>Table[X_EUCKR]\<close> and \<open>hangul\<close> the
  block \<^verbatim>\<open>table.GetBlock(1410)\<close>.  \<^verbatim>\<open>std::binary_search\<close> over the 2350 sorted codes of
  the block is membership in the block.
\<close>

definition dec_tableL :: "nat list" where
  "dec_tableL =
     [1, 2, 0, 3, 0, 0, 4, 5, 6, 0, 0, 0, 0, 0, 0,
      0, 7, 8, 9, 0, 10, 11, 12, 13, 14, 15, 16, 17, 18, 19, 0,
      0, 0, 0, 0, 0, 0, 0, 0, 0, 0, 0, 0, 0, 0, 0, 0,
      0, 0, 0, 0, 20]"

definition dec_tableT :: "nat list" where
  "dec_tableT =
     [2, 3, 4, 5, 6, 7, 8, 0, 9, 10, 11, 12, 13, 14, 15,
      16, 17, 18, 0, 19, 20, 21, 22, 23, 0, 24, 25, 26, 27, 28, 0,
      0, 0, 0, 0, 0, 0, 0, 0, 0, 0, 0, 0, 0, 0, 0, 0,
      0, 0, 0, 0, 1]"

definition EUCKR_jamo :: "16 word list \<Rightarrow> nat \<Rightarrow> nat \<Rightarrow> nat \<Rightarrow> bytes \<times> nat" where
  "EUCKR_jamo hangul y1 y2 y3 =
    (let L = dec_tableL ! (y1 - 0xA1) - 1;
         V = y2 - 0xBF;
         T = dec_tableT ! (y3 - 0xA1) - 1
     in if L < 19 \<and> V < 21 then
          (let code = 0xAC00 + (L * 21 + V) * 28 + T in
           if code \<in> unat ` set (take 2350 hangul)
           then (UnicodeToUTF8 0x3164 @ UnicodeToUTF8 (0x3090 + y1) @ UnicodeToUTF8 (0x3090 + y2),
                 0x3090 + y3)
           else ([], code))
        else if L < 19 \<or> V < 21 \<or> T > 0 then
          (let pre = UnicodeToUTF8 (if L < 19 then 0x1100 + L else 0x115F);
               code = (if V < 21 then 0x1161 + V else 0x1160)
           in if T > 0 then (pre @ UnicodeToUTF8 code, 0x11A7 + T) else (pre, code))
        else (UnicodeToUTF8 0x3164 @ UnicodeToUTF8 0x3164 @ UnicodeToUTF8 0x3164, 0x3164))"

definition EUCKRToUTF8_char :: "16 word list \<Rightarrow> mode \<Rightarrow> bytes \<Rightarrow> conv" where
  "EUCKRToUTF8_char table m t =
    (case t of
       [] \<Rightarrow> Conv 0 [] False True
     | c # cs \<Rightarrow>
         let x = unat c; y = (case cs of [] \<Rightarrow> 0 | d # _ \<Rightarrow> unat d) in
         if x \<le> 0x7F then decoded m t 1 [] x
         else if x \<ge> 0x81 \<and> x < 0xFF \<and> cs \<noteq> [] then
           (if x \<ge> 0xA1 \<and> y \<ge> 0xA1 \<and> y < 0xFF then
              (let code = lookup table ((x - 0xA1) * 94 + (y - 0xA1));
                   cp = drop 2 t
               in if x = 0xA4 \<and> y = 0xD4 \<and> length cp \<ge> 6
                     \<and> cp ! 0 = 0xA4 \<and> cp ! 1 \<ge> 0xA1
                     \<and> cp ! 2 = 0xA4 \<and> cp ! 3 \<ge> 0xA1
                     \<and> cp ! 4 = 0xA4 \<and> cp ! 5 \<ge> 0xA1 then
                    (let y1 = unat (cp ! 1); y2 = unat (cp ! 3); y3 = unat (cp ! 5) in
                     if y1 \<ge> 0xA1 \<and> y1 \<le> 0xD4 \<and> dec_tableL ! (y1 - 0xA1) \<noteq> 0
                        \<and> y2 \<ge> 0xBF \<and> y2 \<le> 0xD4
                        \<and> y3 \<ge> 0xA1 \<and> y3 \<le> 0xD4 \<and> dec_tableT ! (y3 - 0xA1) \<noteq> 0
                     then (let (pre, code) = EUCKR_jamo (GetBlock table 1410) y1 y2 y3
                           in decoded m t 8 pre code)
                     else decoded m t 2 [] code)
                  else decoded m t 2 [] code)
            else if (y \<ge> 0x41 \<and> y \<le> 0x5A) \<or> (y \<ge> 0x61 \<and> y \<le> 0x7A) \<or> (y \<ge> 0x81 \<and> y < 0xFF) then
              (let a = x - 0x81;
                   b = y - 0x41;
                   b = (if b \<ge> 26 then (if b - 6 \<ge> 52 then b - 12 else b - 6) else b);
                   a = (if a < 32 then a * 178 + b else a * 84 + b + 3008)
               in if a < 8822 then decoded m t 2 [] (lookup table (a + 8836))
                  else decoded m t 1 [] 0xFFFD)
            else decoded m t 1 [] 0xFFFD)
         else decoded m t 1 [] 0xFFFD)"

definition EUCKRToUTF8 :: "16 word list \<Rightarrow> bytes \<Rightarrow> mode \<Rightarrow> bytes \<times> nat" where
  "EUCKRToUTF8 table text m = convert (EUCKRToUTF8_char table m) text"

section \<open>Escape sequences\<close>

text \<open>
  \<^verbatim>\<open>EscapeCode(cp, l, state)\<close>: the argument is the escape sequence without its ESC, that
  is the \<open>l\<close> bytes at \<open>cp\<close>; the result is the class and the updated state word.
\<close>

definition EscapeCode :: "bytes \<Rightarrow> state \<Rightarrow> EscapeType \<times> state" where
  "EscapeCode cp st =
    (let l = length cp; c0 = cp ! 0; c1 = cp ! 1 in
     if l = 1 then
       (if c0 = 0x4E then (CODE_SS2, st)        \<comment> \<open>N\<close>
        else if c0 = 0x4F then (CODE_SS3, st)   \<comment> \<open>O\<close>
        else if c0 = 0x6E then (CODE_LS2, st)   \<comment> \<open>n\<close>
        else if c0 = 0x6F then (CODE_LS3, st)   \<comment> \<open>o\<close>
        else if c0 = 0x7E then (CODE_LS1R, st)  \<comment> \<open>tilde\<close>
        else if c0 = 0x7D then (CODE_LS2R, st)  \<comment> \<open>closing brace\<close>
        else if c0 = 0x7C then (CODE_LS3R, st)  \<comment> \<open>bar\<close>
        else (CODE_OTHER, st))
     else if l = 2 then
       (if c0 = 0x20 then (CODE_ACS, st)
        else if c0 = 0x21 then (CODE_CZD, st)
        else if c0 = 0x22 then (CODE_C1D, st)
        else if c0 = 0x25 then (CODE_DOCS, st)
        else if c0 = 0x26 then (CODE_IRR, st)
        else if c0 = 0x27 then (CODE_ERROR, st)
        else if c0 = 0x24 then (CODE_GZD, st OR MULTIBYTE_G0)                         \<comment> \<open>$\<close>
        else if c0 = 0x28 then (CODE_GZD, st AND NOT MULTIBYTE_G0)                    \<comment> \<open>(\<close>
        else if c0 = 0x29 then (CODE_G1D, st AND NOT (MULTIBYTE_G1 OR CHARSET96_G1))  \<comment> \<open>)\<close>
        else if c0 = 0x2A then (CODE_G2D, st AND NOT (MULTIBYTE_G2 OR CHARSET96_G2))  \<comment> \<open>*\<close>
        else if c0 = 0x2B then (CODE_G3D, st AND NOT (MULTIBYTE_G2 OR CHARSET96_G2))  \<comment> \<open>+\<close>
        else if c0 = 0x2C then (CODE_ERROR, st)
        else if c0 = 0x2D then (CODE_G1D, (st AND NOT MULTIBYTE_G1) OR CHARSET96_G1)  \<comment> \<open>-\<close>
        else if c0 = 0x2E then (CODE_G2D, (st AND NOT MULTIBYTE_G2) OR CHARSET96_G2)  \<comment> \<open>.\<close>
        else if c0 = 0x2F then (CODE_G3D, (st AND NOT MULTIBYTE_G3) OR CHARSET96_G3)  \<comment> \<open>/\<close>
        else (CODE_OTHER, st))
     else if l = 3 \<and> c0 = 0x24 then
       (if c1 = 0x28 then (CODE_GZD, st OR MULTIBYTE_G0)
        else if c1 = 0x29 then (CODE_G1D, (st OR MULTIBYTE_G1) AND NOT CHARSET96_G1)
        else if c1 = 0x2A then (CODE_G2D, (st OR MULTIBYTE_G2) AND NOT CHARSET96_G1)
        else if c1 = 0x2B then (CODE_G3D, (st OR MULTIBYTE_G3) AND NOT CHARSET96_G1)
        else if c1 = 0x2D then (CODE_G1D, st OR (MULTIBYTE_G1 OR CHARSET96_G1))
        else if c1 = 0x2E then (CODE_G2D, st OR (MULTIBYTE_G2 OR CHARSET96_G2))
        else if c1 = 0x2F then (CODE_G3D, st OR (MULTIBYTE_G3 OR CHARSET96_G3))
        else (CODE_ERROR, st))
     else if l = 3 \<and> c0 = 0x25 \<and> c1 = 0x2F then (CODE_DOCS, st)
     else if l > 0 then
       (if 0x20 \<le> c0 \<and> c0 \<le> 0x2F \<and> c0 \<noteq> 0x23 then (CODE_ERROR, st)
        else (CODE_OTHER, st))
     else (CODE_ERROR, st))"

text \<open>
  \<^verbatim>\<open>EscapeCodeLength(cp, n)\<close>: length of an escape sequence without its ESC, 0 when the
  bytes at \<open>cp\<close> (all \<open>n\<close> that remain) do not start a complete escape sequence.
\<close>

definition EscapeCodeLength :: "bytes \<Rightarrow> nat" where
  "EscapeCodeLength cp =
    (let l0 = (case cp of
                 [] \<Rightarrow> 0
               | c # r \<Rightarrow> if c = 0x5B
                          then 1 + length (takeWhile (\<lambda>d. 0x30 \<le> d \<and> d \<le> 0x3F) r)
                          else 0);
         l1 = l0 + length (takeWhile (\<lambda>d. 0x20 \<le> d \<and> d \<le> 0x2F) (drop l0 cp))
     in if l1 < length cp \<and> 0x40 \<le> cp ! l1 \<and> cp ! l1 \<le> 0x7E then l1 + 1 else 0)"

text \<open>Control characters that mark a new line: NL VT FF CR.\<close>

definition IsEndLine :: "byte \<Rightarrow> bool" where
  "IsEndLine c \<longleftrightarrow> 0x0A \<le> c \<and> c \<le> 0x0D"


subsection \<open>The table of character sets\<close>

text \<open>
  The rows of \<^verbatim>\<open>Charsets[48]\<close>; the list of alias names of a row is left out (only
  \<^verbatim>\<open>KeyFromString\<close> reads it).
\<close>

record CharsetInfo =
  Key :: byte
  Flags :: nat
  DefinedTerm :: string
  DefinedTermExt :: string
  EscapeCodeOf :: string

definition cs_row :: "byte \<Rightarrow> nat \<Rightarrow> string \<Rightarrow> string \<Rightarrow> string \<Rightarrow> CharsetInfo" where
  "cs_row k f d e x =
     \<lparr>Key = k, Flags = f, DefinedTerm = d, DefinedTermExt = e, EscapeCodeOf = x\<rparr>"

definition Charsets :: "CharsetInfo list" where
  "Charsets =
   [cs_row ISO_IR_6 0 ''ISO_IR 6'' ''ISO 2022 IR 6'' [],
    cs_row ISO_IR_100 0 ''ISO_IR 100'' ''ISO 2022 IR 100'' ''-A'',
    cs_row ISO_IR_101 0 ''ISO_IR 101'' ''ISO 2022 IR 101'' ''-B'',
    cs_row ISO_IR_109 0 ''ISO_IR 109'' ''ISO 2022 IR 109'' ''-C'',
    cs_row ISO_IR_110 0 ''ISO_IR 110'' ''ISO 2022 IR 110'' ''-D'',
    cs_row ISO_IR_144 0 ''ISO_IR 144'' ''ISO 2022 IR 144'' ''-L'',
    cs_row ISO_IR_127 0 ''ISO_IR 127'' ''ISO 2022 IR 127'' ''-G'',
    cs_row ISO_IR_126 0 ''ISO_IR 126'' ''ISO 2022 IR 126'' ''-F'',
    cs_row ISO_IR_138 0 ''ISO_IR 138'' ''ISO 2022 IR 138'' ''-H'',
    cs_row ISO_IR_148 0 ''ISO_IR 148'' ''ISO 2022 IR 148'' ''-M'',
    cs_row ISO_IR_166 0 ''ISO_IR 166'' ''ISO 2022 IR 166'' ''-T'',
    cs_row ISO_IR_13 0 ''ISO_IR 13'' ''ISO 2022 IR 13'' '')I'',
    cs_row ISO_IR_13 0 ''ISO_IR 14'' ''ISO 2022 IR 14'' ''(J'',
    cs_row ISO_IR_13 0 ''ISO_IR 14'' ''ISO 2022 IR 14'' ''(H'',
    cs_row ISO_2022_IR_6 0 ''ISO_IR 6'' ''ISO 2022 IR 6'' ''(B'',
    cs_row ISO_2022_IR_13 0 ''ISO_IR 13'' ''ISO 2022 IR 13'' ''(I'',
    cs_row ISO_2022_IR_87 2 ''ISO_IR 87'' ''ISO 2022 IR 87'' ''$B'',
    cs_row ISO_2022_IR_87 2 ''ISO_IR 87'' ''ISO 2022 IR 87'' ''$@'',
    cs_row ISO_2022_IR_159 2 ''ISO_IR 159'' ''ISO 2022 IR 159'' ''$(D'',
    cs_row ISO_2022_IR_58 1 ''ISO_IR 58'' ''ISO 2022 IR 58'' ''$A'',
    cs_row ISO_2022_IR_58 1 ''ISO_IR 58'' ''ISO 2022 IR 58'' ''$(A'',
    cs_row X_GB2312 1 ''ISO_IR 58'' ''ISO 2022 IR 58'' ''$)A'',
    cs_row ISO_2022_IR_149 1 ''ISO_IR 149'' ''ISO 2022 IR 149'' ''$(C'',
    cs_row X_EUCKR 1 ''ISO_IR 149'' ''ISO 2022 IR 149'' ''$)C'',
    cs_row ISO_IR_100 0 ''ISO_IR 100'' ''ISO 2022 IR 100'' ''.A'',
    cs_row ISO_IR_126 0 ''ISO_IR 126'' ''ISO 2022 IR 126'' ''.F'',
    cs_row ISO_IR_192 0 ''ISO_IR 192'' [] ''%/I'',
    cs_row GB18030 0 ''GB18030'' [] [],
    cs_row GBK 0 ''GBK'' [] [],
    cs_row X_LATIN6 0 ''latin6'' [] ''-V'',
    cs_row X_LATIN7 0 ''latin7'' [] ''-Y'',
    cs_row X_LATIN8 0 ''latin8'' [] ''-_'',
    cs_row X_LATIN9 0 ''latin9'' [] ''-b'',
    cs_row X_LATIN10 0 ''latin10'' [] ''-f'',
    cs_row X_CP874 0 ''cp874'' [] [],
    cs_row X_CP1250 0 ''cp1250'' [] [],
    cs_row X_CP1251 0 ''cp1251'' [] [],
    cs_row X_CP1252 0 ''cp1252'' [] [],
    cs_row X_CP1253 0 ''cp1253'' [] [],
    cs_row X_CP1254 0 ''cp1254'' [] [],
    cs_row X_CP1255 0 ''cp1255'' [] [],
    cs_row X_CP1256 0 ''cp1256'' [] [],
    cs_row X_CP1257 0 ''cp1257'' [] [],
    cs_row X_CP1258 0 ''cp1258'' [] [],
    cs_row X_BIG5 0 ''big5'' [] [],
    cs_row X_SJIS 0 ''sjis'' [] [],
    cs_row X_EUCJP 0 ''euc-jp'' [] [],
    cs_row X_KOI8 0 ''koi8'' [] []]"

text \<open>
  \<^verbatim>\<open>strncmp(a, b, n) == 0\<close> on NUL-terminated strings: the first \<open>n\<close> characters agree,
  or the strings agree up to a common NUL before that.  A list that has ended reads as
  its terminating NUL.
\<close>

fun strncmp_eq :: "bytes \<Rightarrow> bytes \<Rightarrow> nat \<Rightarrow> bool" where
  "strncmp_eq a b 0 = True"
| "strncmp_eq a b (Suc n) =
    (let x = (case a of [] \<Rightarrow> 0 | x # _ \<Rightarrow> x);
         y = (case b of [] \<Rightarrow> 0 | y # _ \<Rightarrow> y)
     in if x \<noteq> y then False
        else if x = 0 then True
        else strncmp_eq (tl a) (tl b) n)"

definition c_str :: "string \<Rightarrow> bytes" where
  "c_str s = map (\<lambda>c. of_nat (of_char c)) s"

text \<open>
  \<^verbatim>\<open>CharacterSetFromEscapeCode(code, l)\<close>: the key of the first row whose escape code
  matches the first \<open>l\<close> bytes at \<open>code\<close>, 255 when none does.
\<close>

definition CharacterSetFromEscapeCode :: "bytes \<Rightarrow> nat \<Rightarrow> byte" where
  "CharacterSetFromEscapeCode code l =
    (case filter (\<lambda>r. strncmp_eq code (c_str (EscapeCodeOf r)) l) Charsets of
       [] \<Rightarrow> 255
     | r # _ \<Rightarrow> Key r)"

section \<open>Encoding to ISO 2022\<close>










section \<open>ISO 2022 decoding\<close>











text \<open>The state word and the designations of a decoder state.\<close>

definition ISO2022_designation :: "state \<times> byte list \<times> nat \<times> bytes \<Rightarrow> state \<times> byte list" where
  "ISO2022_designation d = (case d of (st, G, n, s) \<Rightarrow> (st, G))"

text \<open>The control codes NL VT FF CR SO SI.\<close>

abbreviation ctl :: "byte \<Rightarrow> bool" where
  "ctl x \<equiv> 0x0A \<le> x \<and> x \<le> 0x0F"

section \<open>Scanning for backslashes\<close>

text \<open>
  \<^verbatim>\<open>NextBackslash(text, ep)\<close> returns \<open>cp - text\<close> for the position \<open>cp\<close> where its scan
  stops.  Each branch of the source is a loop over the bytes that remain; the model
  returns the number of bytes the loop advances over.
\<close>

fun NextBackslash_GB :: "bytes \<Rightarrow> nat" where
  "NextBackslash_GB [] = 0"
| "NextBackslash_GB (c # cs) =
    (if c = 0 then 0
     else if 0x81 \<le> c then
       (case cs of
          [] \<Rightarrow> 1
        | d # ds \<Rightarrow> if 0x21 \<le> d then 2 + NextBackslash_GB ds
                    else 1 + NextBackslash_GB (d # ds))
     else if c \<noteq> 0x5C then 1 + NextBackslash_GB cs
     else 0)"

fun NextBackslash_SJIS :: "bytes \<Rightarrow> nat" where
  "NextBackslash_SJIS [] = 0"
| "NextBackslash_SJIS (x # cs) =
    (if x = 0 then 0
     else if (0x81 \<le> x \<and> x \<le> 0x9F) \<or> (0xE0 \<le> x \<and> x \<le> 0xFC) then
       (case cs of
          [] \<Rightarrow> 1
        | d # ds \<Rightarrow> if 0x40 \<le> d \<and> d \<le> 0xFC \<and> d \<noteq> 0x7F then 2 + NextBackslash_SJIS ds
                    else 1 + NextBackslash_SJIS (d # ds))
     else if x \<noteq> 0x5C then 1 + NextBackslash_SJIS cs
     else 0)"

fun NextBackslash_BIG5 :: "bytes \<Rightarrow> nat" where
  "NextBackslash_BIG5 [] = 0"
| "NextBackslash_BIG5 (x # cs) =
    (if x = 0 then 0
     else if 0x81 \<le> x \<and> x \<le> 0xFE then
       (case cs of
          [] \<Rightarrow> 1
        | d # ds \<Rightarrow> if (0x40 \<le> d \<and> d \<le> 0x7E) \<or> (0xA1 \<le> d \<and> d \<le> 0xFE)
                    then 2 + NextBackslash_BIG5 ds
                    else 1 + NextBackslash_BIG5 (d # ds))
     else if x \<noteq> 0x5C then 1 + NextBackslash_BIG5 cs
     else 0)"

fun NextBackslash_plain :: "bytes \<Rightarrow> nat" where
  "NextBackslash_plain [] = 0"
| "NextBackslash_plain (c # cs) =
    (if c = 0 then 0 else if c = 0x5C then 0 else 1 + NextBackslash_plain cs)"

text \<open>
  The ISO 2022 branch carries \<open>charsetG2\<close>, \<open>charsetG3\<close>, the state word, \<open>shiftcount\<close>
  and \<open>charset96\<close> from one iteration to the next.  The inner loop over a run of line
  ends returns how many further line-end bytes it consumes and whether a CR NL pair
  reset the scan.
\<close>

fun NB_endlines :: "byte \<Rightarrow> bytes \<Rightarrow> nat \<times> bool" where
  "NB_endlines prevchar [] = (0, False)"
| "NB_endlines prevchar (c # cs) =
    (if IsEndLine c then
       (let (k, r) = NB_endlines c cs
        in (k + 1, r \<or> (prevchar = 0x0D \<and> c = 0x0A)))
     else (0, False))"

function NextBackslash_ISO2022 ::
  "byte \<Rightarrow> byte \<Rightarrow> state \<Rightarrow> nat \<Rightarrow> bool \<Rightarrow> bytes \<Rightarrow> nat" where
  "NextBackslash_ISO2022 charsetG2 charsetG3 st shiftcount charset96 [] = 0"
| "NextBackslash_ISO2022 charsetG2 charsetG3 st shiftcount charset96 (c # cs) =
    (if c = 0 then 0
     else if c = 0x1B then
       (let l = EscapeCodeLength cs;
            (ty, st') = EscapeCode (take l cs) st;
            g2 = (if ty = CODE_G2D then CharacterSetFromEscapeCode cs l else charsetG2);
            g3 = (if ty = CODE_G3D then CharacterSetFromEscapeCode cs l else charsetG3);
            sc = (if ty = CODE_SS2 \<and> charsetG2 \<noteq> Unknown
                    then (if st' AND MULTIBYTE_G2 \<noteq> 0 then 2 else 1)
                  else if ty = CODE_SS3 \<and> charsetG3 \<noteq> Unknown
                    then (if st' AND MULTIBYTE_G3 \<noteq> 0 then 2 else 1)
                  else 0);
            c96 = (if ty = CODE_SS2 \<and> charsetG2 \<noteq> Unknown then st' AND CHARSET96_G2 \<noteq> 0
                   else if ty = CODE_SS3 \<and> charsetG3 \<noteq> Unknown then st' AND CHARSET96_G3 \<noteq> 0
                   else charset96);
            k = length (takeWhile (\<lambda>d. d \<noteq> 0x5C) (take l cs))
        in 1 + k + NextBackslash_ISO2022 g2 g3 st' sc c96 (drop k cs))
     else if IsEndLine c then
       (let (k, r) = NB_endlines c cs
        in if r then 1 + k + NextBackslash_ISO2022 Unknown Unknown 0 0 charset96 (drop k cs)
           else 1 + k + NextBackslash_ISO2022 charsetG2 charsetG3 st shiftcount charset96 (drop k cs))
     else if shiftcount \<noteq> 0 then
       (let cGL = c AND 0x7F
        in if (0x21 \<le> cGL \<and> cGL \<le> 0x7E) \<or> (charset96 \<and> 0x20 \<le> cGL)
           then 1 + NextBackslash_ISO2022 charsetG2 charsetG3 st (shiftcount - 1) charset96 cs
           else NextBackslash_ISO2022 charsetG2 charsetG3 st 0 charset96 (c # cs))
     else if st AND MULTIBYTE_G0 \<noteq> 0 then
       1 + NextBackslash_ISO2022 charsetG2 charsetG3 st shiftcount charset96 cs
     else if c \<noteq> 0x5C then
       1 + NextBackslash_ISO2022 charsetG2 charsetG3 st shiftcount charset96 cs
     else 0)"
  by pat_completeness auto
termination
  by (relation "measure (\<lambda>(g2, g3, st, sc, c96, t). 2 * length t + (if sc = 0 then 0 else 1))")
     auto

definition NextBackslash :: "byte \<Rightarrow> bytes \<Rightarrow> nat" where
  "NextBackslash key text =
    (if key = GB18030 \<or> key = GBK then NextBackslash_GB text
     else if key = X_SJIS then NextBackslash_SJIS text
     else if key = X_BIG5 then NextBackslash_BIG5 text
     else if IsISO2022 key then NextBackslash_ISO2022 Unknown Unknown 0 0 False text
     else NextBackslash_plain text)"

section \<open>Character starts of a decoder\<close>

text \<open>
  The offsets at which the conversion loop with the iteration \<open>f\<close> begins an iteration
  on the text \<open>str\<close>, together with the offset at which it ends: the offsets where a
  character of the encoding starts.  An offset outside this set points into a character.
\<close>

inductive_set char_starts :: "(bytes \<Rightarrow> conv) \<Rightarrow> bytes \<Rightarrow> nat set"
  for f :: "bytes \<Rightarrow> conv" and str :: bytes where
  first: "0 \<in> char_starts f str"
| later: "p \<in> char_starts f str \<Longrightarrow> p < length str \<Longrightarrow>
          p + used (f (drop p str)) \<in> char_starts f str"

section \<open>Auxiliary lemmas\<close>

subsection \<open>Bytes and bit operations\<close>

lemma byte_lt: "unat (c::byte) < 256"
  using unsigned_less [of c, where ?'a = nat] by simp

lemma and_push_bit_drop: "(x::nat) AND push_bit n m = push_bit n (drop_bit n x AND m)"
  by (rule bit_eqI) (auto simp add: bit_simps)

lemma and_low: "(x::nat) AND (2 ^ n - 1) = x mod 2 ^ n"
  using take_bit_eq_mask [of n x] by (simp add: take_bit_eq_mod mask_eq_exp_minus_1)

lemma and_high: "(x::nat) AND (2 ^ k * (2 ^ j - 1)) = 2 ^ k * ((x div 2 ^ k) mod 2 ^ j)"
  using and_push_bit_drop [of x k "2 ^ j - 1"] and_low [of "x div 2 ^ k" j]
  by (simp add: push_bit_eq_mult drop_bit_eq_div mult.commute)

lemma or_mult_add: "b < 2 ^ n \<Longrightarrow> (a * 2 ^ n) OR b = a * 2 ^ n + (b::nat)"
proof -
  assume "b < 2 ^ n"
  then have b: "take_bit n b = b" by (simp add: take_bit_nat_eq_self_iff)
  have "push_bit n a AND take_bit n b = 0"
    by (rule bit_eqI) (auto simp add: bit_simps)
  then have "push_bit n a OR b = push_bit n a + b" using b by (simp add: disjunctive_add_eq_or)
  then show ?thesis by (simp add: push_bit_eq_mult)
qed

lemma div_eq_range: "0 < d \<Longrightarrow> ((n::nat) div d = v) = (v * d \<le> n \<and> n < (v + 1) * d)"
proof
  assume d: "0 < d" and "n div d = v"
  then show "v * d \<le> n \<and> n < (v + 1) * d"
    using div_times_less_eq_dividend [of n d] dividend_less_div_times [of d n] by (auto simp add: mult.commute)
next
  assume d: "0 < d" and "v * d \<le> n \<and> n < (v + 1) * d"
  then show "n div d = v"
    by (auto intro!: div_nat_eqI simp add: mult.commute)
qed

lemma div_in_range: "0 < d \<Longrightarrow> v * d \<le> n \<Longrightarrow> n < (v + 1) * d \<Longrightarrow> (n::nat) div d = v"
  by (simp add: div_eq_range)

lemma mod_in_range: "0 < d \<Longrightarrow> v * d \<le> n \<Longrightarrow> n < (v + 1) * d \<Longrightarrow> (n::nat) mod d = n - v * d"
  using div_in_range [of d v n] minus_div_mult_eq_mod [of n d] by simp

lemma high_field:
  assumes "(n::nat) < d * e" "0 < d"
  shows "(d * ((n div d) mod e) = d * v) = (v * d \<le> n \<and> n < (v + 1) * d)"
proof -
  have "n div d < e" using assms less_mult_imp_div_less [of n e d] by (simp add: mult.commute)
  then have "(n div d) mod e = n div d" by simp
  then show ?thesis using assms(2) div_eq_range [of d n v] by simp
qed

lemma and_3F: "(x::nat) AND 0x3F = x mod 64" using and_low [of x 6] by simp
lemma and_1F: "(x::nat) AND 0x1F = x mod 32" using and_low [of x 5] by simp
lemma and_0F: "(x::nat) AND 0x0F = x mod 16" using and_low [of x 4] by simp
lemma and_07: "(x::nat) AND 0x07 = x mod 8" using and_low [of x 3] by simp
lemma and_3FF: "(x::nat) AND 0x3FF = x mod 1024" using and_low [of x 10] by simp
lemma and_80: "(x::nat) AND 0x80 = 128 * (x div 128 mod 2)" using and_high [of x 7 1] by simp
lemma and_C0: "(x::nat) AND 0xC0 = 64 * (x div 64 mod 4)" using and_high [of x 6 2] by simp
lemma and_E0: "(x::nat) AND 0xE0 = 32 * (x div 32 mod 8)" using and_high [of x 5 3] by simp
lemma and_F0: "(x::nat) AND 0xF0 = 16 * (x div 16 mod 16)" using and_high [of x 4 4] by simp
lemma and_F8: "(x::nat) AND 0xF8 = 8 * (x div 8 mod 32)" using and_high [of x 3 5] by simp
lemma and_20: "(x::nat) AND 0x20 = 32 * (x div 32 mod 2)" using and_high [of x 5 1] by simp
lemma and_30: "(x::nat) AND 0x30 = 16 * (x div 16 mod 4)" using and_high [of x 4 2] by simp
lemma and_780: "(x::nat) AND 0x780 = 128 * (x div 128 mod 16)" using and_high [of x 7 4] by simp
lemma and_FC00: "(x::nat) AND 0xFC00 = 1024 * (x div 1024 mod 64)" using and_high [of x 10 6] by simp

lemma b80: "n < 256 \<Longrightarrow> (n AND 0x80 = 0) = (n < (0x80::nat))"
  unfolding and_80 using high_field [of n 128 2 0] by simp
lemma bC0: "n < 256 \<Longrightarrow> (n AND 0xC0 = 0x80) = (0x80 \<le> n \<and> n < (0xC0::nat))"
  unfolding and_C0 using high_field [of n 64 4 2] by simp
lemma bE0: "n < 256 \<Longrightarrow> (n AND 0xE0 = 0xC0) = (0xC0 \<le> n \<and> n < (0xE0::nat))"
  unfolding and_E0 using high_field [of n 32 8 6] by simp
lemma bF0: "n < 256 \<Longrightarrow> (n AND 0xF0 = 0xE0) = (0xE0 \<le> n \<and> n < (0xF0::nat))"
  unfolding and_F0 using high_field [of n 16 16 14] by simp
lemma bF8: "n < 256 \<Longrightarrow> (n AND 0xF8 = 0xF0) = (0xF0 \<le> n \<and> n < (0xF8::nat))"
  unfolding and_F8 using high_field [of n 8 32 30] by simp
lemma bB0: "n < 256 \<Longrightarrow> (n AND 0xF0 = 0xB0) = (0xB0 \<le> n \<and> n < (0xC0::nat))"
  unfolding and_F0 using high_field [of n 16 16 11] by simp
lemma surr_hi: "c < 0x10000 \<Longrightarrow> (c AND 0xFC00 = 0xD800) = (0xD800 \<le> c \<and> c < (0xDC00::nat))"
  unfolding and_FC00 using high_field [of c 1024 64 54] by simp
lemma m64: "0x80 \<le> s \<Longrightarrow> s < 0xC0 \<Longrightarrow> s mod 64 = s - (0x80::nat)"
  using mod_in_range [of 64 2 s] by simp
lemma c20: "0x80 \<le> s \<Longrightarrow> s < 0xC0 \<Longrightarrow> (s AND 0x20 = 0) = (s < (0xA0::nat))"
  unfolding and_20 using div_in_range [of 32 4 s] div_in_range [of 32 5 s]
  by (cases "s < 0xA0") simp_all
lemma c30: "0x80 \<le> s \<Longrightarrow> s < 0xC0 \<Longrightarrow> (s AND 0x30 = 0) = (s < (0x90::nat))"
  unfolding and_30
  using div_in_range [of 16 8 s] div_in_range [of 16 9 s] div_in_range [of 16 10 s] div_in_range [of 16 11 s]
  by (cases "s < 0x90"; cases "s < 0xA0"; cases "s < 0xB0") simp_all

lemma byte_hi: "(c AND 0x80 = 0) = (unat c < 0x80)" for c :: byte
proof -
  have "(c AND 0x80 = 0) = (unat (c AND 0x80) = 0)" by (simp add: unat_eq_0)
  also have "unat (c AND 0x80) = unat c AND 0x80" by (simp add: unsigned_and_eq)
  also have "(unat c AND 0x80 = 0) = (unat c < 0x80)"
    using byte_lt [of c] by (simp add: b80)
  finally show ?thesis .
qed

lemma byte_le: "(a \<le> c) = (unat a \<le> unat c)" for a c :: byte
  by (rule word_le_nat_alt)

lemma byte_eq: "(a = c) = (unat a = unat c)" for a c :: byte
  by (simp add: word_unat_eq_iff)



lemma used_decoded [simp]: "used (decoded m t n pre code) = n"
  by (simp add: decoded_def)










lemma used_pair:
  "used (case p of (code, n) \<Rightarrow> if P code n then Conv n (A code n) x1 y1 else Conv n (B code n) x2 y2) = snd p"
  by (cases p) auto

lemma GB18030_used:
  "used (GB18030ToUTF8_char table m (c # cs)) =
    (if unat c < 0x80 then 1
     else case cs of [] \<Rightarrow> 1
     | d # ds \<Rightarrow>
        if 0x81 \<le> unat c \<and> unat c \<le> 0xFE \<and> 0x30 \<le> unat d \<and> unat d \<le> 0xFE \<and> unat d \<noteq> 0x7F
        then (if 0x40 \<le> unat d then 2
              else if 2 \<le> length ds \<and> 0x81 \<le> unat (ds ! 0) \<and> unat (ds ! 0) \<le> 0xFE
                      \<and> 0x30 \<le> unat (ds ! 1) \<and> unat (ds ! 1) \<le> 0x39 then 4 else 2)
        else 1)"
proof (cases "unat c < 0x80")
  case True
  then show ?thesis by (simp add: GB18030ToUTF8_char_def byte_hi)
next
  case False
  show ?thesis
  proof (cases cs)
    case Nil
    with False show ?thesis by (simp add: GB18030ToUTF8_char_def byte_hi)
  next
    case (Cons d ds)
    have len: "(3 \<le> Suc (length ds)) = (2 \<le> length ds)" by arith
    from False Cons byte_lt [of c] show ?thesis
      unfolding GB18030ToUTF8_char_def
      by (simp add: byte_hi used_pair Let_def if_distrib [of snd] byte_le len del: One_nat_def)
         (auto simp add: Suc_le_eq)
  qed
qed






declare NextBackslash_GB.simps [simp del]

subsection \<open>The UTF-8 decoder against the reference reading\<close>

lemma shl6: "push_bit 6 (k::nat) = k * 64" by (simp add: push_bit_eq_mult)
lemma shl4: "push_bit 4 (k::nat) = k * 16" by (simp add: push_bit_eq_mult)

lemma or64: "b < 64 \<Longrightarrow> (k * 64) OR b = k * 64 + (b::nat)"
  using or_mult_add [of b 6 k] by simp
lemma or16: "b < 16 \<Longrightarrow> (k * 16) OR b = k * 16 + (b::nat)"
  using or_mult_add [of b 4 k] by simp

lemma or64_cont: "0x80 \<le> s \<Longrightarrow> s < 0xC0 \<Longrightarrow> (k * 64) OR (s AND 0x3F) = k * 64 + (s - (0x80::nat))"
  using or64 [of "s mod 64" k] by (simp add: and_3F m64)

lemma cont_iff: "s < 256 \<Longrightarrow> (s AND 0xC0 = 0x80) = utf8_cont s"
  by (auto simp add: bC0 utf8_cont_def)

lemma lead2: "0xC0 \<le> n \<Longrightarrow> n < 0xE0 \<Longrightarrow> n AND 0x1F = n - (0xC0::nat)"
  using mod_in_range [of 32 6 n] by (simp add: and_1F)
lemma lead3: "0xE0 \<le> n \<Longrightarrow> n < 0xF0 \<Longrightarrow> n AND 0x0F = n - (0xE0::nat)"
  using mod_in_range [of 16 14 n] by (simp add: and_0F)
lemma lead4: "0xF0 \<le> n \<Longrightarrow> n < 0xF8 \<Longrightarrow> n AND 0x07 = n - (0xF0::nat)"
  using mod_in_range [of 8 30 n] by (simp add: and_07)

lemma overlong2: "k < 32 \<Longrightarrow> ((k * 64) AND 0x780 = 0) = (k < (2::nat))"
  unfolding and_780 using high_field [of "k * 64" 128 16 0] by auto

lemma UTF8_two_ref:
  assumes "0xC0 \<le> n0" "n0 < 0xE0"
  shows "UTF8_result (UTF8_two n0 t1) =
    (if n0 < 0xC2 then (0xFFFF, 1)
     else case t1 of [] \<Rightarrow> (0xFFFE, 1)
          | s1 # r \<Rightarrow> if utf8_cont (unat s1)
                      then ((n0 - 0xC0) * 64 + (unat s1 - 0x80), 2) else (0xFFFF, 1))"
proof -
  have k: "n0 - 0xC0 < 32" using assms by simp
  have c: "unat s1 < 256" for s1 :: byte by (rule byte_lt)
  show ?thesis
    using assms overlong2 [OF k] c
    by (auto simp add: UTF8_two_def UTF8_result_def lead2 shl6 Let_def cont_iff or64_cont utf8_cont_def
        split: list.splits)
qed


lemma ret_simps [simp]:
  "utf8_returns (Scalar c, n) = (c, n)"
  "utf8_returns (Malformed, n) = (0xFFFF, n)"
  "utf8_returns (Truncated, n) = (0xFFFE, n)"
  by (simp_all add: utf8_returns_def utf8_value_def)

lemma res_simps [simp]:
  "UTF8_result (0, c, n) = (0xFFFF, n)"
  "UTF8_result (- 1, c, n) = (0xFFFE, n)"
  "UTF8_result (1, c, n) = (c, n)"
  by (simp_all add: UTF8_result_def)

lemma byte_eq_ED: "(c = 0xED) = (unat c = 0xED)" for c :: byte
  by (simp add: word_unat_eq_iff)

lemma low10: "0xD800 \<le> c \<Longrightarrow> c < 0xDC00 \<Longrightarrow> c AND 0x3FF = c - (0xD800::nat)"
  using mod_in_range [of 1024 54 c] by (simp add: and_3FF)
lemma low4: "0xB0 \<le> s \<Longrightarrow> s < 0xC0 \<Longrightarrow> s AND 0x0F = s - (0xB0::nat)"
  using mod_in_range [of 16 11 s] by (simp add: and_0F)
lemma or16_low: "0xB0 \<le> s \<Longrightarrow> s < 0xC0 \<Longrightarrow> (k * 16) OR (s AND 0x0F) = k * 16 + (s - (0xB0::nat))"
  using or16 [of "s - 0xB0" k] by (simp add: low4)

lemma UTF8_pair_ref:
  assumes "0xD800 \<le> c" "c < 0xDC00"
  shows "UTF8_result (UTF8_surrogate_pair c t3) = utf8_returns (utf8_ref_low c (map unat t3))"
proof (cases t3)
  case Nil
  then show ?thesis by (simp add: UTF8_surrogate_pair_def utf8_ref_low_def)
next
  case t3: (Cons b0 r0)
  show ?thesis
  proof (cases "unat b0 = 0xED")
    case False
    then show ?thesis using t3 by (simp add: UTF8_surrogate_pair_def utf8_ref_low_def byte_eq_ED)
  next
    case ed: True
    show ?thesis
    proof (cases r0)
      case Nil
      then show ?thesis using t3 ed by (simp add: UTF8_surrogate_pair_def utf8_ref_low_def byte_eq_ED)
    next
      case r0: (Cons b1 r1)
      have b1: "unat b1 < 256" by (rule byte_lt)
      show ?thesis
      proof (cases "0xB0 \<le> unat b1 \<and> unat b1 < 0xC0")
        case False
        then show ?thesis using t3 ed r0 bB0 [OF b1]
          by (auto simp add: UTF8_surrogate_pair_def utf8_ref_low_def byte_eq_ED)
      next
        case lo: True
        show ?thesis
        proof (cases r1)
          case Nil
          then show ?thesis using t3 ed r0 lo bB0 [OF b1]
            by (auto simp add: UTF8_surrogate_pair_def utf8_ref_low_def byte_eq_ED)
        next
          case r1: (Cons b2 r2)
          have b2: "unat b2 < 256" by (rule byte_lt)
          show ?thesis
          proof (cases "utf8_cont (unat b2)")
            case False
            then show ?thesis using t3 ed r0 lo r1 bB0 [OF b1] cont_iff [OF b2]
              by (auto simp add: UTF8_surrogate_pair_def utf8_ref_low_def byte_eq_ED)
          next
            case True
            then have c2: "0x80 \<le> unat b2" "unat b2 < 0xC0" by (simp_all add: utf8_cont_def)
            define h where "h = c - 0xD800"
            define k where "k = unat b1 - 0xB0"
            define j where "j = unat b2 - 0x80"
            have "(push_bit 6 (push_bit 4 (c AND 0x03FF) OR (unat b1 AND 0x0F)) OR (unat b2 AND 0x3F))
                     = (h * 16 + k) * 64 + j"
              unfolding h_def k_def j_def
              using assms lo c2 by (simp add: low10 shl4 shl6 or16_low or64_cont
                  del: push_bit_and push_bit_or push_bit_push_bit)
            also have "\<dots> = h * 1024 + k * 64 + j" by simp
            finally have v: "(push_bit 6 (push_bit 4 (c AND 0x03FF) OR (unat b1 AND 0x0F)) OR (unat b2 AND 0x3F))
                     = (c - 0xD800) * 1024 + (unat b1 - 0xB0) * 64 + (unat b2 - 0x80)"
              unfolding h_def k_def j_def .
            show ?thesis using t3 ed r0 lo r1 True bB0 [OF b1] cont_iff [OF b2]
              by (simp add: UTF8_surrogate_pair_def utf8_ref_low_def byte_eq_ED v
                  del: push_bit_and push_bit_or push_bit_push_bit)
          qed
        qed
      qed
    qed
  qed
qed


lemma or_zero_iff: "((a::nat) OR b = 0) = (a = 0 \<and> b = 0)"
  by (simp add: or_eq_0_iff)

lemma UTF8_three_ref:
  assumes "0xE0 \<le> n0" "n0 < 0xF0"
  shows "UTF8_result (UTF8_three n0 t1) = utf8_returns (utf8_ref3 n0 (map unat t1))"
proof (cases t1)
  case Nil
  then show ?thesis by (simp add: UTF8_three_def utf8_ref3_def)
next
  case t1: (Cons s1 t2)
  have s1: "unat s1 < 256" by (rule byte_lt)
  show ?thesis
  proof (cases "utf8_cont (unat s1)")
    case False
    then show ?thesis using t1 cont_iff [OF s1]
      by (simp add: UTF8_three_def utf8_ref3_def Let_def)
  next
    case c1: True
    then have r1: "0x80 \<le> unat s1" "unat s1 < 0xC0" by (simp_all add: utf8_cont_def)
    have ov: "((push_bit 6 (n0 AND 0x0F) OR (unat s1 AND 0x20)) \<noteq> 0)
               = (\<not> (n0 = 0xE0 \<and> unat s1 < 0xA0))"
      using assms r1 by (auto simp add: lead3 shl6 or_zero_iff c20)
    show ?thesis
    proof (cases "n0 = 0xE0 \<and> unat s1 < 0xA0")
      case True
      then show ?thesis using t1 c1 ov cont_iff [OF s1]
        by (simp add: UTF8_three_def utf8_ref3_def Let_def del: push_bit_and push_bit_or)
    next
      case nov: False
      define k where "k = (n0 - 0xE0) * 64 + (unat s1 - 0x80)"
      have code2: "push_bit 6 (push_bit 6 (n0 AND 0x0F) OR (unat s1 AND 0x3F)) = k * 64"
        unfolding k_def using assms r1
        by (simp add: lead3 shl6 or64_cont del: push_bit_and push_bit_or push_bit_push_bit)
      show ?thesis
      proof (cases t2)
        case Nil
        then show ?thesis using t1 c1 nov ov cont_iff [OF s1]
          by (simp add: UTF8_three_def utf8_ref3_def Let_def del: push_bit_and push_bit_or push_bit_push_bit)
      next
        case t2: (Cons s2 t3)
        have s2: "unat s2 < 256" by (rule byte_lt)
        show ?thesis
        proof (cases "utf8_cont (unat s2)")
          case False
          then show ?thesis using t1 t2 c1 nov ov cont_iff [OF s1] cont_iff [OF s2]
            by (simp add: UTF8_three_def utf8_ref3_def Let_def del: push_bit_and push_bit_or push_bit_push_bit)
        next
          case c2: True
          then have r2: "0x80 \<le> unat s2" "unat s2 < 0xC0" by (simp_all add: utf8_cont_def)
          define c where "c = (n0 - 0xE0) * 4096 + (unat s1 - 0x80) * 64 + (unat s2 - 0x80)"
          have "push_bit 6 (push_bit 6 (n0 AND 0x0F) OR (unat s1 AND 0x3F)) OR (unat s2 AND 0x3F)
                 = k * 64 + (unat s2 - 0x80)"
            unfolding code2 using r2 by (simp add: or64_cont)
          also have "\<dots> = c" unfolding k_def c_def by simp
          finally have code3:
            "push_bit 6 (push_bit 6 (n0 AND 0x0F) OR (unat s1 AND 0x3F)) OR (unat s2 AND 0x3F) = c" .
          have cb: "c < 0x10000" unfolding c_def using assms r1 r2 by simp
          have hi: "(c AND 0xFC00 = 0xD800) = (0xD800 \<le> c \<and> c \<le> 0xDBFF)"
            using surr_hi [OF cb] by auto
          have m: "UTF8_three n0 t1 =
              (if 0xD800 \<le> c \<and> c \<le> 0xDBFF then UTF8_surrogate_pair c t3 else (1, c, 3))"
            using t1 t2 c1 c2 nov ov cont_iff [OF s1] cont_iff [OF s2] code3 hi
            by (simp add: UTF8_three_def Let_def del: push_bit_and push_bit_or push_bit_push_bit)
          have r: "utf8_ref3 n0 (map unat t1) =
              (if 0xD800 \<le> c \<and> c \<le> 0xDBFF then utf8_ref_low c (map unat t3) else (Scalar c, 3))"
            using t1 t2 c1 c2 nov by (simp add: utf8_ref3_def Let_def c_def)
          show ?thesis unfolding m r using UTF8_pair_ref [of c t3] by auto
        qed
      qed
    qed
  qed
qed


lemma UTF8_four_ref:
  assumes "0xF0 \<le> n0" "n0 < 0xF8"
  shows "UTF8_result (UTF8_four n0 t1) = utf8_returns (utf8_ref4 n0 (map unat t1))"
proof (cases t1)
  case Nil
  then show ?thesis by (simp add: UTF8_four_def utf8_ref4_def)
next
  case t1: (Cons s1 t2)
  have s1: "unat s1 < 256" by (rule byte_lt)
  show ?thesis
  proof (cases "utf8_cont (unat s1)")
    case False
    then show ?thesis using t1 cont_iff [OF s1]
      by (simp add: UTF8_four_def utf8_ref4_def Let_def)
  next
    case c1: True
    then have r1: "0x80 \<le> unat s1" "unat s1 < 0xC0" by (simp_all add: utf8_cont_def)
    have ov: "((push_bit 6 (n0 AND 0x07) OR (unat s1 AND 0x30)) \<noteq> 0)
               = (\<not> (n0 = 0xF0 \<and> unat s1 < 0x90))"
      using assms r1 by (auto simp add: lead4 shl6 or_zero_iff c30)
    show ?thesis
    proof (cases "n0 = 0xF0 \<and> unat s1 < 0x90")
      case True
      then show ?thesis using t1 c1 ov cont_iff [OF s1]
        by (simp add: UTF8_four_def utf8_ref4_def Let_def del: push_bit_and push_bit_or)
    next
      case nov: False
      define k where "k = (n0 - 0xF0) * 64 + (unat s1 - 0x80)"
      have code2: "push_bit 6 (push_bit 6 (n0 AND 0x07) OR (unat s1 AND 0x3F)) = k * 64"
        unfolding k_def using assms r1
        by (simp add: lead4 shl6 or64_cont del: push_bit_and push_bit_or push_bit_push_bit)
      show ?thesis
      proof (cases t2)
        case Nil
        then show ?thesis using t1 c1 nov ov cont_iff [OF s1]
          by (simp add: UTF8_four_def utf8_ref4_def Let_def del: push_bit_and push_bit_or push_bit_push_bit)
      next
        case t2: (Cons s2 t3)
        have s2: "unat s2 < 256" by (rule byte_lt)
        show ?thesis
        proof (cases "utf8_cont (unat s2)")
          case False
          then show ?thesis using t1 t2 c1 nov ov cont_iff [OF s1] cont_iff [OF s2]
            by (simp add: UTF8_four_def utf8_ref4_def Let_def del: push_bit_and push_bit_or push_bit_push_bit)
        next
          case c2: True
          then have r2: "0x80 \<le> unat s2" "unat s2 < 0xC0" by (simp_all add: utf8_cont_def)
          define j where "j = k * 64 + (unat s2 - 0x80)"
          have code3: "push_bit 6 (push_bit 6 (push_bit 6 (n0 AND 0x07) OR (unat s1 AND 0x3F))
                          OR (unat s2 AND 0x3F)) = j * 64"
            unfolding code2 j_def using r2
            by (simp add: shl6 or64_cont del: push_bit_and push_bit_or push_bit_push_bit)
          show ?thesis
          proof (cases t3)
            case Nil
            then show ?thesis using t1 t2 c1 c2 nov ov cont_iff [OF s1] cont_iff [OF s2]
              by (simp add: UTF8_four_def utf8_ref4_def Let_def del: push_bit_and push_bit_or push_bit_push_bit)
          next
            case t3: (Cons s3 t4)
            have s3: "unat s3 < 256" by (rule byte_lt)
            show ?thesis
            proof (cases "utf8_cont (unat s3)")
              case False
              then show ?thesis
                using t1 t2 t3 c1 c2 nov ov cont_iff [OF s1] cont_iff [OF s2] cont_iff [OF s3]
                by (simp add: UTF8_four_def utf8_ref4_def Let_def del: push_bit_and push_bit_or push_bit_push_bit)
            next
              case c3: True
              then have r3: "0x80 \<le> unat s3" "unat s3 < 0xC0" by (simp_all add: utf8_cont_def)
              define c where "c = (n0 - 0xF0) * 262144 + (unat s1 - 0x80) * 4096
                                  + (unat s2 - 0x80) * 64 + (unat s3 - 0x80)"
              have "push_bit 6 (push_bit 6 (push_bit 6 (n0 AND 0x07) OR (unat s1 AND 0x3F))
                          OR (unat s2 AND 0x3F)) OR (unat s3 AND 0x3F) = j * 64 + (unat s3 - 0x80)"
                unfolding code3 using r3 by (simp add: or64_cont)
              also have "\<dots> = c" unfolding j_def k_def c_def by simp
              finally have code4:
                "push_bit 6 (push_bit 6 (push_bit 6 (n0 AND 0x07) OR (unat s1 AND 0x3F))
                          OR (unat s2 AND 0x3F)) OR (unat s3 AND 0x3F) = c" .
              have m: "UTF8_four n0 t1 = (if c \<le> 0x10FFFF then (1, c, 4) else (0, c, 4))"
                using t1 t2 t3 c1 c2 c3 nov ov cont_iff [OF s1] cont_iff [OF s2] cont_iff [OF s3] code4
                by (simp add: UTF8_four_def Let_def del: push_bit_and push_bit_or push_bit_push_bit)
              have r: "utf8_ref4 n0 (map unat t1) =
                  (if c \<le> 0x10FFFF then (Scalar c, 4) else (Malformed, 4))"
                using t1 t2 t3 c1 c2 c3 nov by (simp add: utf8_ref4_def Let_def c_def)
              show ?thesis unfolding m r by simp
            qed
          qed
        qed
      qed
    qed
  qed
qed

lemma UTF8ToUnicode_reference: "UTF8ToUnicode t = utf8_returns (utf8_reference t)"
proof (cases t)
  case Nil
  then show ?thesis by (simp add: UTF8ToUnicode_def utf8_reference_def)
next
  case (Cons c0 t1)
  define n0 where "n0 = unat c0"
  have n: "n0 < 256" unfolding n0_def by (rule byte_lt)
  consider (a) "n0 < 0x80" | (b) "0x80 \<le> n0" "n0 < 0xC0" | (c) "0xC0 \<le> n0" "n0 < 0xE0"
    | (d) "0xE0 \<le> n0" "n0 < 0xF0" | (e) "0xF0 \<le> n0" "n0 < 0xF8" | (f) "0xF8 \<le> n0"
    by linarith
  then show ?thesis
  proof cases
    case a
    then show ?thesis using Cons n
      by (simp add: UTF8ToUnicode_def utf8_reference_def n0_def [symmetric] b80 Let_def)
  next
    case b
    then show ?thesis using Cons n
      by (simp add: UTF8ToUnicode_def utf8_reference_def n0_def [symmetric] b80 bE0 bF0 bF8 Let_def)
  next
    case c
    then show ?thesis using Cons n UTF8_two_ref [of n0 t1]
      by (auto simp add: UTF8ToUnicode_def utf8_reference_def n0_def [symmetric] b80 bE0 bF0 bF8 Let_def
          split: list.splits)
  next
    case d
    then show ?thesis using Cons n UTF8_three_ref [of n0 t1]
      by (simp add: UTF8ToUnicode_def utf8_reference_def n0_def [symmetric] b80 bE0 bF0 bF8 Let_def)
  next
    case e
    then show ?thesis using Cons n UTF8_four_ref [of n0 t1]
      by (simp add: UTF8ToUnicode_def utf8_reference_def n0_def [symmetric] b80 bE0 bF0 bF8 Let_def)
  next
    case f
    then show ?thesis using Cons n
      by (simp add: UTF8ToUnicode_def utf8_reference_def n0_def [symmetric] b80 bE0 bF0 bF8 Let_def)
  qed
qed

subsection \<open>The UTF-8 encoder in arithmetic form\<close>

lemma unat_byte: "x < 256 \<Longrightarrow> unat (of_nat x :: byte) = x"
  by (simp add: unat_of_nat take_bit_nat_eq_self_iff)

lemma unat_80: "x < 64 \<Longrightarrow> unat (0x80 + of_nat x :: byte) = 0x80 + x"
  using unat_byte [of "0x80 + x"] by simp
lemma unat_E0: "x < 16 \<Longrightarrow> unat (0xE0 + of_nat x :: byte) = 0xE0 + x"
  using unat_byte [of "0xE0 + x"] by simp

lemma split3: "(c::nat) = (c div 4096) * 4096 + (c div 64 mod 64) * 64 + c mod 64"
  using mod_mult2_eq [of c 64 64] div_mult_mod_eq [of c 4096] by simp


lemma or80: "x < 64 \<Longrightarrow> 0x80 OR x = 0x80 + (x::nat)"
  using or_mult_add [of x 6 2] by simp
lemma orE0: "x < 16 \<Longrightarrow> 0xE0 OR x = 0xE0 + (x::nat)"
  using or_mult_add [of x 4 14] by simp



lemma enc3:
  assumes "0x800 \<le> c" "c \<le> 0xFFFF"
  shows "map unat (UnicodeToUTF8 c) = [0xE0 + c div 4096, 0x80 + c div 64 mod 64, 0x80 + c mod 64]"
proof -
  have a: "c div 4096 < 16" using assms less_mult_imp_div_less [of c 16 4096] by simp
  show ?thesis using assms a
    by (simp add: UnicodeToUTF8_def drop_bit_eq_div and_3F or80 orE0 unat_80 unat_E0)
qed





lemma ref_enc3:
  assumes "0x800 \<le> c" "c \<le> 0xFFFF"
  shows "utf8_reference (UnicodeToUTF8 c @ rest) =
    (if 0xD800 \<le> c \<and> c \<le> 0xDBFF then utf8_ref_low c (map unat rest) else (Scalar c, 3))"
proof -
  define a where "a = c div 4096"
  define b where "b = c div 64 mod 64"
  define d where "d = c mod 64"
  have c: "c = a * 4096 + b * 64 + d" unfolding a_def b_def d_def by (rule split3)
  have d: "d < 64" unfolding d_def by simp
  have b: "b < 64" unfolding b_def by simp
  have a: "a < 16" using assms c by simp
  have ov: "\<not> (a = 0 \<and> b < 32)" using assms c d by auto
  have "map unat (UnicodeToUTF8 c @ rest) = (0xE0 + a) # (0x80 + b) # (0x80 + d) # map unat rest"
    using enc3 [OF assms] by (simp add: a_def b_def d_def)
  then show ?thesis using a b d ov c [symmetric]
    by (simp add: utf8_reference_def utf8_ref3_def utf8_cont_def Let_def)
qed


lemma ref_low_enc:
  assumes "0xDC00 \<le> lo" "lo \<le> 0xDFFF"
  shows "utf8_ref_low hi (map unat (UnicodeToUTF8 lo @ rest)) =
           (Scalar (0x10000 + (hi - 0xD800) * 1024 + (lo - 0xDC00)), 6)"
proof -
  define a where "a = lo div 4096"
  define b where "b = lo div 64 mod 64"
  define d where "d = lo mod 64"
  have c: "lo = a * 4096 + b * 64 + d" unfolding a_def b_def d_def by (rule split3)
  have d: "d < 64" unfolding d_def by simp
  have b: "b < 64" unfolding b_def by simp
  have a: "a = 13" using assms c b d by simp
  have b2: "48 \<le> b" using assms c a d by simp
  have "map unat (UnicodeToUTF8 lo @ rest) = (0xE0 + a) # (0x80 + b) # (0x80 + d) # map unat rest"
    using enc3 [of lo] assms by (simp add: a_def b_def d_def)
  then show ?thesis using a b b2 d c
    by (simp add: utf8_ref_low_def utf8_cont_def)
qed

lemma length_encode:
  "length (UnicodeToUTF8 c) =
     (if c \<le> 0x7F then 1 else if c \<le> 0x7FF then 2 else if c \<le> 0xFFFF then 3
      else if c \<le> 0x10FFFF then 4 else 3)"
  by (simp add: UnicodeToUTF8_def)

subsection \<open>The sequences that read as U+FFFE and U+FFFF\<close>

lemma top3:
  assumes "a \<le> 15" "b \<le> 63" "d \<le> 63" "j \<le> 63" "a * 4096 + b * 64 + d = 0xFFC0 + (j::nat)"
  shows "a = 15 \<and> b = 63 \<and> d = j"
proof -
  have a: "a = 15" using assms by (cases "a \<le> 14") simp_all
  have b: "b = 63" using assms a by (cases "b \<le> 62") simp_all
  show ?thesis using assms a b by simp
qed

lemma ref3_scalar:
  assumes "utf8_ref3 b0 r = (Scalar v, n)" "0xE0 \<le> b0" "b0 < 0xF0" "v < 0x10000"
  shows "\<exists>b1 b2 r2. r = b1 # b2 # r2 \<and> 0x80 \<le> b1 \<and> b1 \<le> 0xBF \<and> 0x80 \<le> b2 \<and> b2 \<le> 0xBF
           \<and> v = (b0 - 0xE0) * 4096 + (b1 - 0x80) * 64 + (b2 - 0x80)"
  using assms
  by (auto simp add: utf8_ref3_def utf8_ref_low_def utf8_cont_def Let_def split: list.splits if_splits)

lemma ref4_scalar:
  assumes "utf8_ref4 b0 r = (Scalar v, n)" "0xF0 \<le> b0"
  shows "0x10000 \<le> v"
  using assms
  apply (auto simp add: utf8_ref4_def utf8_cont_def Let_def split: list.splits if_splits)
   apply linarith+
  done

lemma ref_top_nat:
  assumes "j \<le> 63"
  shows "(fst (utf8_reference t) = Scalar (0xFFC0 + j)) = (take 3 (map unat t) = [0xEF, 0xBF, 0x80 + j])"
proof
  assume "take 3 (map unat t) = [0xEF, 0xBF, 0x80 + j]"
  then obtain r where "map unat t = 0xEF # 0xBF # (0x80 + j) # r"
    by (cases "map unat t" rule: list.exhaust; simp; cases "tl (map unat t)"; simp;
        cases "tl (tl (map unat t))"; simp)
  then show "fst (utf8_reference t) = Scalar (0xFFC0 + j)" using assms
    by (simp add: utf8_reference_def utf8_ref3_def utf8_cont_def Let_def)
next
  assume s: "fst (utf8_reference t) = Scalar (0xFFC0 + j)"
  show "take 3 (map unat t) = [0xEF, 0xBF, 0x80 + j]"
  proof (cases "map unat t")
    case Nil
    then show ?thesis using s by (simp add: utf8_reference_def)
  next
    case (Cons b0 r)
    consider (a) "b0 < 0xC2" | (c) "0xC2 \<le> b0" "b0 < 0xE0"
      | (d) "0xE0 \<le> b0" "b0 < 0xF0" | (e) "0xF0 \<le> b0" "b0 < 0xF8" | (f) "0xF8 \<le> b0"
      by linarith
    then show ?thesis
    proof cases
      case a
      then show ?thesis using s Cons by (auto simp add: utf8_reference_def split: if_splits)
    next
      case c
      then show ?thesis using s Cons
        by (auto simp add: utf8_reference_def utf8_cont_def split: if_splits list.splits)
    next
      case d
      then have "utf8_reference t = utf8_ref3 b0 r" using Cons by (simp add: utf8_reference_def)
      then have "utf8_ref3 b0 r = (Scalar (0xFFC0 + j), snd (utf8_ref3 b0 r))"
        using s by (simp add: prod_eq_iff)
      from ref3_scalar [OF this d] assms obtain b1 b2 r2 where
        r: "r = b1 # b2 # r2" and b: "0x80 \<le> b1" "b1 \<le> 0xBF" "0x80 \<le> b2" "b2 \<le> 0xBF"
        and v: "0xFFC0 + j = (b0 - 0xE0) * 4096 + (b1 - 0x80) * 64 + (b2 - 0x80)"
        by auto
      have "b0 - 0xE0 = 15 \<and> b1 - 0x80 = 63 \<and> b2 - 0x80 = j"
        using top3 [of "b0 - 0xE0" "b1 - 0x80" "b2 - 0x80" j] d b v assms by simp
      then show ?thesis using Cons r d b by auto
    next
      case e
      then have "utf8_reference t = utf8_ref4 b0 r" using Cons by (simp add: utf8_reference_def)
      then have "utf8_ref4 b0 r = (Scalar (0xFFC0 + j), snd (utf8_ref4 b0 r))"
        using s by (simp add: prod_eq_iff)
      from ref4_scalar [OF this e(1)] assms show ?thesis by simp
    next
      case f
      then show ?thesis using s Cons by (simp add: utf8_reference_def)
    qed
  qed
qed

lemma take3_bytes:
  "(take 3 (map unat t) = [unat a, unat b, unat c]) = (take 3 t = [a, b, c])" for t :: bytes
proof -
  have "(map unat (take 3 t) = map unat [a, b, c]) = (take 3 t = [a, b, c])"
    by (rule inj_map_eq_map) (simp add: inj_on_def byte_eq)
  then show ?thesis by (simp add: take_map)
qed

lemma ref_FFFF: "(fst (utf8_reference t) = Scalar 0xFFFF) = (take 3 t = [0xEF, 0xBF, 0xBF])"
  using ref_top_nat [of 63 t] take3_bytes [where t = t and a = "0xEF" and b = "0xBF" and c = "0xBF"] by simp

lemma ref_FFFE: "(fst (utf8_reference t) = Scalar 0xFFFE) = (take 3 t = [0xEF, 0xBF, 0xBE])"
  using ref_top_nat [of 62 t] take3_bytes [where t = t and a = "0xEF" and b = "0xBF" and c = "0xBE"] by simp

subsection \<open>The output of the conversion loop as UTF-8 text\<close>



lemma utf8_text_mono: "a \<in> utf8_text P \<Longrightarrow> (\<And>c. P c \<Longrightarrow> Q c) \<Longrightarrow> a \<in> utf8_text Q"
  by (induction rule: utf8_text.induct) (auto intro: utf8_text.intros)

















subsection \<open>The loop over control codes\<close>


subsection \<open>The state of the ISO 2022 decoder after a text\<close>

lemma ISO2022_designation_simp [simp]: "ISO2022_designation (st, G, n, s) = (st, G)"
  by (simp add: ISO2022_designation_def)











lemma ctl_not_printable: "0x20 \<le> c \<Longrightarrow> \<not> ctl c" for c :: byte
  by (simp add: byte_le)









subsection \<open>The UTF-8 encoder inverts the decoder\<close>






















section \<open>Verified claims\<close>

text \<open>
  C10. For every prior state word, classifying a two-byte escape sequence whose first
  byte is \<open>+\<close> (single-byte 94-character designation of G3) returns \<^verbatim>\<open>CODE_G3D\<close> and
  clears the \<^verbatim>\<open>MULTIBYTE_G2\<close> and \<^verbatim>\<open>CHARSET96_G2\<close> bits of the state word; the
  \<^verbatim>\<open>MULTIBYTE_G3\<close> and \<^verbatim>\<open>CHARSET96_G3\<close> bits keep their prior values.
\<close>

theorem C10_plus_designation_clears_G2_flags:
  "fst (EscapeCode [0x2B, f] st) = CODE_G3D
   \<and> snd (EscapeCode [0x2B, f] st) AND MULTIBYTE_G2 = 0
   \<and> snd (EscapeCode [0x2B, f] st) AND CHARSET96_G2 = 0
   \<and> snd (EscapeCode [0x2B, f] st) AND MULTIBYTE_G3 = st AND MULTIBYTE_G3
   \<and> snd (EscapeCode [0x2B, f] st) AND CHARSET96_G3 = st AND CHARSET96_G3"
  by (simp add: EscapeCode_def flag_defs and.assoc)

subsection \<open>Concrete tables for witnesses\<close>

text \<open>
  A compressed table with no hot range and a single range that starts at 0 and is
  neither linear nor dense: every lookup yields \<^verbatim>\<open>RCHAR\<close>.
\<close>

lemma lookup_unmapped: "lookup [0, 1, 0, 0xFFFD, 0xFFFD] a = 0xFFFD"
  by (simp add: lookup_def CompressedTable_def at16_def RCHAR_def)

text \<open>
  C5. Decoding the four bytes 84 31 A4 37 with the GB18030 decoder in replace mode emits
  exactly one U+FFFD (the bytes EF BF BD) and reports no error: the returned offset is
  the input length 4.  The table is an argument; the four bytes address its entry
  \<open>31 * 1260 + 357 + 23940 = 63357\<close>, which holds U+FFFD, the code point that the
  specification gives for 84 31 A4 37.
\<close>

theorem C5_gb18030_replacement_character:
  "lookup table 63357 = 0xFFFD \<Longrightarrow>
   GB18030ToUTF8 table [0x84, 0x31, 0xA4, 0x37] UTF8_REPLACE = ([0xEF, 0xBF, 0xBD], 4)"
  by (simp add: GB18030ToUTF8_def GB18030ToUTF8_char_def convert_def conv_result_def
      UnicodeToUTF8_def)

theorem C5_gb18030_replacement_character_witness:
  "lookup [0, 1, 0, 0xFFFD, 0xFFFD] 63357 = 0xFFFD
   \<and> GB18030ToUTF8 [0, 1, 0, 0xFFFD, 0xFFFD] [0x84, 0x31, 0xA4, 0x37] UTF8_REPLACE
       = ([0xEF, 0xBF, 0xBD], 4)"
  using C5_gb18030_replacement_character [of "[0, 1, 0, 0xFFFD, 0xFFFD]"]
    lookup_unmapped [of 63357]
  by simp

text \<open>
  C3 (the code departs from the claim).  \<^verbatim>\<open>EUCJPToUTF8\<close> on the two bytes 8F A1, a JIS X
  0212 sequence cut after its second byte, leaves its loop by \<^verbatim>\<open>break\<close> without
  recording an error position: in every mode it appends nothing and returns offset 1,
  which is neither the input length 2 nor the offset 0 of the undecodable sequence.
\<close>

theorem C3_eucjp_truncated_sequence_offset:
  "EUCJPToUTF8 jisx0208 jisx0212 [0x8F, 0xA1] m = ([], 1)"
  by (simp add: EUCJPToUTF8_def EUCJPToUTF8_char_def convert_def conv_result_def)

text \<open>
  The sibling loop of \<^verbatim>\<open>GB18030ToUTF8\<close> records the position before it breaks: a lead
  byte cut off by the end of the input is reported at its own offset.
\<close>

lemma gb18030_truncated_sequence_offset: "GB18030ToUTF8 table [0x41, 0x84] m = ([0x41], 1)"
  by (simp add: GB18030ToUTF8_def GB18030ToUTF8_char_def convert_def conv_result_def)

lemma eucjp_truncated_after_ascii:
  "EUCJPToUTF8 jisx0208 jisx0212 [0x41, 0x8F, 0xA1] m = ([0x41], 2)"
  by (simp add: EUCJPToUTF8_def EUCJPToUTF8_char_def convert_def conv_result_def)

text \<open>
  C7 (as stated, refuted).  Whatever the tables hold, encoding U+D55C (UTF-8 ED 95 9C)
  with \<^verbatim>\<open>UTF8ToEUCKR\<close> never yields A4 D4 A4 BB A4 C5 A4 A1, and decoding those eight
  bytes with \<^verbatim>\<open>EUCKRToUTF8\<close> never yields ED 95 9C.
\<close>

lemma utf8_U_D55C: "UTF8ToUnicode [0xED, 0x95, 0x9C] = (0xD55C, 3)"
  by (simp add: UTF8ToUnicode_def UTF8_three_def UTF8_result_def)

lemma euckr_encode_U_D55C:
  "UTF8ToEUCKR rtable [0xED, 0x95, 0x9C] =
    (let t = CompressedTableR rtable 0xD55C in
     if t < 8836 then ([of_nat (0xA1 + t div 94), of_nat (0xA1 + t mod 94)], 3)
     else ([0xA4, 0xD4, 0xA4, 0xBE, 0xA4, 0xBF, 0xA4, 0xA4], 3))"
  by (simp add: UTF8ToEUCKR_def UTF8ToEUCKR_char_def convert_def conv_result_def utf8_U_D55C
      Let_def enc_tableL_def enc_tableT_def)

lemma euckr_decode_claimed_jamo:
  "fst (EUCKRToUTF8 table [0xA4, 0xD4, 0xA4, 0xBB, 0xA4, 0xC5, 0xA4, 0xA1] m)
     \<noteq> [0xED, 0x95, 0x9C]"
  by (simp add: EUCKRToUTF8_def EUCKRToUTF8_char_def convert_def conv_result_def decoded_def
      EUCKR_jamo_def Let_def dec_tableL_def dec_tableT_def UnicodeToUTF8_def)

theorem C7_euckr_han_counterexample:
  "(\<forall>rtable. fst (UTF8ToEUCKR rtable [0xED, 0x95, 0x9C])
       \<noteq> [0xA4, 0xD4, 0xA4, 0xBB, 0xA4, 0xC5, 0xA4, 0xA1])
   \<and> (\<forall>table. fst (EUCKRToUTF8 table [0xA4, 0xD4, 0xA4, 0xBB, 0xA4, 0xC5, 0xA4, 0xA1]
                      UTF8_REPLACE) \<noteq> [0xED, 0x95, 0x9C])"
  by (simp add: euckr_encode_U_D55C euckr_decode_claimed_jamo Let_def)

text \<open>
  C7 (amended).  Encoding U+D55C with \<^verbatim>\<open>UTF8ToEUCKR\<close> yields the two-byte KS X 1001 code
  when the reverse table holds an index \<open>t\<close> below 8836 for it (the bytes
  \<open>A1 + t div 94\<close> and \<open>A1 + t mod 94\<close>; C7 D1 for the KS X 1001 position 3620), and
  otherwise the eight-byte jamo sequence A4 D4 A4 BE A4 BF A4 A4.  Decoding
  A4 D4 A4 BE A4 BF A4 A4 with \<^verbatim>\<open>EUCKRToUTF8\<close> yields ED 95 9C (U+D55C) and offset 8
  when U+D55C is absent from the hangul block of the table, and the compatibility jamo
  U+3164 U+314E U+314F U+3134 when it is present.
\<close>

theorem C7_euckr_han_amended:
  "UTF8ToEUCKR rtable [0xED, 0x95, 0x9C] =
     (let t = CompressedTableR rtable 0xD55C in
      if t < 8836 then ([of_nat (0xA1 + t div 94), of_nat (0xA1 + t mod 94)], 3)
      else ([0xA4, 0xD4, 0xA4, 0xBE, 0xA4, 0xBF, 0xA4, 0xA4], 3))
   \<and> EUCKRToUTF8 table [0xA4, 0xD4, 0xA4, 0xBE, 0xA4, 0xBF, 0xA4, 0xA4] m =
     (if 0xD55C \<in> unat ` set (take 2350 (GetBlock table 1410))
      then (UnicodeToUTF8 0x3164 @ UnicodeToUTF8 0x314E @ UnicodeToUTF8 0x314F
              @ UnicodeToUTF8 0x3134, 8)
      else ([0xED, 0x95, 0x9C], 8))"
  by (simp add: euckr_encode_U_D55C)
     (simp add: EUCKRToUTF8_def EUCKRToUTF8_char_def convert_def conv_result_def decoded_def
      EUCKR_jamo_def Let_def dec_tableL_def dec_tableT_def UnicodeToUTF8_def)




text \<open>
  The restriction for GB18030 and GBK is needed: on the malformed text FF 81 5C the
  scan pairs FF with 81 and stops at the 5C, which the decoder reads as the trailing
  byte of the character 81 5C.
\<close>

lemma next_backslash_gb18030_malformed:
  "NextBackslash GB18030 [0xFF, 0x81, 0x5C] = 2
   \<and> 2 \<notin> char_starts (GB18030ToUTF8_char table m) [0xFF, 0x81, 0x5C]"
proof -
  let ?t = "[0xFF, 0x81, 0x5C] :: bytes"
  have "p \<in> {0, 1, 3}" if "p \<in> char_starts (GB18030ToUTF8_char table m) ?t" for p
    using that
  proof (induction rule: char_starts.induct)
    case first
    then show ?case by simp
  next
    case (later p)
    then consider "p = 0" | "p = 1" by auto
    then show ?case
      by cases (simp_all add: GB18030_used)
  qed
  then have "2 \<notin> char_starts (GB18030ToUTF8_char table m) ?t" by fastforce
  then show ?thesis
    by (simp add: NextBackslash_def GB18030_def NextBackslash_GB.simps)
qed

subsection \<open>C4: the sentinels of the UTF-8 decoder\<close>

text \<open>
  C4 (as stated) says that \<^verbatim>\<open>UTF8ToUnicode\<close> returns 0xFFFF exactly when the sequence at
  the cursor is malformed and 0xFFFE exactly when it is cut off by the end of the input.
  The three bytes EF BF BF are the well-formed encoding of U+FFFF and EF BF BE that of
  U+FFFE; the decoder returns their values, which are the two sentinels, for sequences
  that are neither malformed nor truncated.
\<close>

theorem C4_utf8_sentinel_counterexample:
  "fst (UTF8ToUnicode [0xEF, 0xBF, 0xBF]) = 0xFFFF
   \<and> utf8_reference [0xEF, 0xBF, 0xBF] = (Scalar 0xFFFF, 3)
   \<and> fst (UTF8ToUnicode [0xEF, 0xBF, 0xBE]) = 0xFFFE
   \<and> utf8_reference [0xEF, 0xBF, 0xBE] = (Scalar 0xFFFE, 3)"
  by (simp add: UTF8ToUnicode_def UTF8_three_def UTF8_result_def utf8_reference_def
      utf8_ref3_def utf8_cont_def Let_def)

text \<open>
  C4 (amended).  \<^verbatim>\<open>UTF8ToUnicode\<close> returns the value and the length of the reference
  reading of the sequence at the cursor, 0xFFFF standing for a malformed and 0xFFFE for
  a truncated sequence.  Hence it returns 0xFFFF exactly when the sequence is malformed
  or is EF BF BF, and 0xFFFE exactly when the sequence is truncated or is EF BF BE.  The
  three-byte encoding of a high surrogate followed by the three-byte encoding of a low
  surrogate is read as one code point, 0x10000 + (hi - 0xD800) * 0x400 + (lo - 0xDC00),
  and the cursor advances by six bytes.
\<close>

theorem C4_utf8_sentinels_amended:
  "UTF8ToUnicode t = (utf8_value (fst (utf8_reference t)), snd (utf8_reference t))
   \<and> (fst (UTF8ToUnicode t) = 0xFFFF
        \<longleftrightarrow> fst (utf8_reference t) = Malformed \<or> take 3 t = [0xEF, 0xBF, 0xBF])
   \<and> (fst (UTF8ToUnicode t) = 0xFFFE
        \<longleftrightarrow> fst (utf8_reference t) = Truncated \<or> take 3 t = [0xEF, 0xBF, 0xBE])
   \<and> (0xD800 \<le> hi \<and> hi \<le> 0xDBFF \<and> 0xDC00 \<le> lo \<and> lo \<le> 0xDFFF \<longrightarrow>
        UTF8ToUnicode (UnicodeToUTF8 hi @ UnicodeToUTF8 lo @ rest)
          = (0x10000 + (hi - 0xD800) * 1024 + (lo - 0xDC00), 6))"
proof -
  have r: "UTF8ToUnicode t = (utf8_value (fst (utf8_reference t)), snd (utf8_reference t))" for t
    by (simp add: UTF8ToUnicode_reference utf8_returns_def)
  have a: "(fst (UTF8ToUnicode t) = 0xFFFF)
        = (fst (utf8_reference t) = Malformed \<or> take 3 t = [0xEF, 0xBF, 0xBF])"
    unfolding r ref_FFFF [symmetric]
    by (cases "fst (utf8_reference t)") (simp_all add: utf8_value_def)
  have b: "(fst (UTF8ToUnicode t) = 0xFFFE)
        = (fst (utf8_reference t) = Truncated \<or> take 3 t = [0xEF, 0xBF, 0xBE])"
    unfolding r ref_FFFE [symmetric]
    by (cases "fst (utf8_reference t)") (simp_all add: utf8_value_def)
  have c: "UTF8ToUnicode (UnicodeToUTF8 hi @ UnicodeToUTF8 lo @ rest)
          = (0x10000 + (hi - 0xD800) * 1024 + (lo - 0xDC00), 6)"
    if "0xD800 \<le> hi" "hi \<le> 0xDBFF" "0xDC00 \<le> lo" "lo \<le> 0xDFFF"
    using that ref_enc3 [of hi "UnicodeToUTF8 lo @ rest"] ref_low_enc [of lo hi rest]
    by (simp add: r utf8_value_def)
  show ?thesis using r [of t] a b c by blast
qed

theorem C4_utf8_sentinels_amended_witness:
  "0xD800 \<le> (0xD83D::nat) \<and> 0xD83D \<le> (0xDBFF::nat)
   \<and> 0xDC00 \<le> (0xDE00::nat) \<and> 0xDE00 \<le> (0xDFFF::nat)
   \<and> UTF8ToUnicode (UnicodeToUTF8 0xD83D @ UnicodeToUTF8 0xDE00 @ []) = (0x1F600, 6)"
  using C4_utf8_sentinels_amended [of "[]" "0xD83D" "0xDE00" "[]"]
  by simp

subsection \<open>C2: the output of decoding is well-formed UTF-8\<close>




subsection \<open>C6: CR NL resets the ISO 2022 state\<close>



subsection \<open>C1: the round trip through UTF-8\<close>




end
